theory Spec2Isabelle
  imports Main "HOL-Library.Char_ord" "HOL-Library.List_Lexorder" "HOL-Library.Sublist"
begin

section \<open>The songbook splitter (split.py)\<close>

text \<open>
  A shallow embedding of \<^verbatim>\<open>split.py\<close>. Python strings are modelled as
  \<^typ>\<open>string\<close>, the UTF-8 bytes of the text: every character the program tests for is
  ASCII, no byte of a multi-byte UTF-8 sequence is ASCII, and the bytewise lexicographic
  order of UTF-8 is the code point order Python sorts strings by.
\<close>

subsection \<open>sanitize\_filename\<close>

text \<open>
  \<^verbatim>\<open>re.sub(r'[\\/*?:"<>|]', "", name)\<close>: the pattern is a character class, so
  every match is one character of the class; each is replaced by the replacement text.
  The class holds backslash, slash, star, question mark, colon, double quote, less-than,
  greater-than and bar.
\<close>

definition invalid_chars :: "char list" where
  "invalid_chars =
     [CHR 0x5C, CHR ''/'', CHR ''*'', CHR ''?'', CHR '':'', CHR 0x22, CHR ''<'', CHR ''>'', CHR ''|'']"

fun re_sub_class :: "char list \<Rightarrow> string \<Rightarrow> string \<Rightarrow> string" where
  "re_sub_class cls repl [] = []"
| "re_sub_class cls repl (c # cs) =
     (if c \<in> set cls then repl @ re_sub_class cls repl cs
      else c # re_sub_class cls repl cs)"

text \<open>\<^verbatim>\<open>str.replace(old, new)\<close> for a one-character \<open>old\<close>.\<close>

fun str_replace_char :: "char \<Rightarrow> string \<Rightarrow> string \<Rightarrow> string" where
  "str_replace_char old new [] = []"
| "str_replace_char old new (c # cs) =
     (if c = old then new @ str_replace_char old new cs
      else c # str_replace_char old new cs)"

definition sanitize_filename :: "string \<Rightarrow> string" where
  "sanitize_filename name =
     (let sanitized = re_sub_class invalid_chars [] name;
          sanitized = str_replace_char (CHR '' '') ''_'' sanitized
      in sanitized)"

subsection \<open>Data\<close>

text \<open>
  A parsed JSON value; the program passes \<^verbatim>\<open>metadata\<close> and the fields of a song it
  does not look at through unchanged.
\<close>

datatype json =
  JNull | JBool bool | JNum int | JStr string | JArr "json list" | JObj "(string \<times> json) list"

text \<open>
  A song record is a JSON object. The program reads three of its keys, \<^verbatim>\<open>title\<close>,
  \<^verbatim>\<open>album\<close> and \<^verbatim>\<open>artist\<close>; in a songbook each of them is absent (\<open>None\<close>)
  or a string, and the model covers these documents. The other keys are kept, in their
  order, in \<open>other_fields\<close>. So \<^verbatim>\<open>'title' in song\<close> is \<open>title song \<noteq> None\<close>,
  \<^verbatim>\<open>song.get('title')\<close> is \<open>title song\<close>, and a string is truthy when it is not
  empty. The songbook document is an object with the two optional keys
  \<^verbatim>\<open>metadata\<close> and \<^verbatim>\<open>songs\<close>, the latter a list of song records.
\<close>

record song =
  title :: "string option"
  album :: "string option"
  artist :: "string option"
  other_fields :: "(string \<times> json) list"

record document =
  doc_metadata :: "json option"
  doc_songs :: "song list option"

text \<open>The objects the writers build: album file, artist file and catalog.\<close>

record album_data =
  alb_album_title :: string
  alb_artist :: string
  alb_song_count :: nat
  alb_songs :: "song list"

record artist_data =
  art_artist_name :: string
  art_song_count :: nat
  art_songs :: "song list"

record album_entry =
  entry_artist :: string
  entry_songs :: "string list"

text \<open>
  Python dictionaries keep their keys in insertion order: the two mappings of the catalog,
  like the grouping dictionaries, are association lists with distinct keys.
\<close>

record catalog =
  cat_artists :: "(string \<times> string list) list"
  cat_albums :: "(string \<times> album_entry) list"
  cat_songs :: "string list"

text \<open>What \<^verbatim>\<open>json.dump\<close> is given: the content of a written file.\<close>

datatype content =
  SongJson song
| AlbumJson album_data
| ArtistJson artist_data
| MetadataJson json
| CatalogJson catalog

subsection \<open>The environment, the effects and the exceptions\<close>

text \<open>
  Reading the input file either raises (\<^verbatim>\<open>FileNotFoundError\<close>,
  \<^verbatim>\<open>json.JSONDecodeError\<close>, or any other \<^verbatim>\<open>Exception\<close> with its message) or
  yields the parsed document.
\<close>

datatype load_outcome =
  FileNotFoundError
| JSONDecodeError
| OtherException string
| Loaded document

text \<open>
  The file system is the program's environment: which input path holds what, and at which
  path opening a file for writing, or creating a directory, fails (with which message).
\<close>

record env =
  read_input :: "string \<Rightarrow> load_outcome"
  write_error :: "string \<Rightarrow> string option"
  mkdir_error :: "string \<Rightarrow> string option"

text \<open>
  The effects of a run, in the order they happen: the directories made, the files written
  (a later write to the same path replaces the earlier file) and the lines printed. The
  program never reads back what it wrote.
\<close>

record world =
  dirs :: "string list"
  files :: "(string \<times> content) list"
  out :: "string list"

definition initial_world :: world where
  "initial_world = \<lparr>dirs = [], files = [], out = []\<rparr>"

text \<open>
  The exceptions of the writers, with their message: a failed \<^verbatim>\<open>open\<close> or
  \<^verbatim>\<open>makedirs\<close>, and an index out of range.
\<close>

datatype exn = OSError string | IndexError string

fun str_exn :: "exn \<Rightarrow> string" where
  "str_exn (OSError m) = m"
| "str_exn (IndexError m) = m"

text \<open>
  An operation that can raise returns the exception, if any, with the world it leaves
  behind; \<open>and_then\<close> runs the next statement unless the first one raised.
\<close>

type_synonym outcome = "exn option \<times> world"

definition and_then :: "outcome \<Rightarrow> (world \<Rightarrow> outcome) \<Rightarrow> outcome" where
  "and_then r f = (case r of (None, w) \<Rightarrow> f w | (Some x, w) \<Rightarrow> (Some x, w))"

definition print_line :: "string \<Rightarrow> world \<Rightarrow> world" where
  "print_line l w = w\<lparr>out := out w @ [l]\<rparr>"

text \<open>\<^verbatim>\<open>os.makedirs(path, exist_ok=True)\<close>.\<close>

definition makedirs :: "env \<Rightarrow> string \<Rightarrow> world \<Rightarrow> outcome" where
  "makedirs e path w =
     (case mkdir_error e path of
        Some m \<Rightarrow> (Some (OSError m), w)
      | None \<Rightarrow> (None, w\<lparr>dirs := dirs w @ [path]\<rparr>))"

text \<open>
  \<^verbatim>\<open>with open(filepath, 'w', encoding='utf-8') as f: json.dump(x, f, ...)\<close>: the file
  is written unless opening it fails.
\<close>

definition write_json :: "env \<Rightarrow> string \<Rightarrow> content \<Rightarrow> world \<Rightarrow> outcome" where
  "write_json e filepath x w =
     (case write_error e filepath of
        Some m \<Rightarrow> (Some (OSError m), w)
      | None \<Rightarrow> (None, w\<lparr>files := files w @ [(filepath, x)]\<rparr>))"

text \<open>\<^verbatim>\<open>os.path.join(a, b)\<close> on POSIX.\<close>

definition path_join :: "string \<Rightarrow> string \<Rightarrow> string" where
  "path_join a b =
     (if take 1 b = ''/'' then b
      else if a = [] \<or> last a = CHR ''/'' then a @ b
      else a @ ''/'' @ b)"

text \<open>The decimal text of a length, as an f-string prints it.\<close>

fun str_nat :: "nat \<Rightarrow> string" where
  "str_nat n =
     (if n < 10 then [''0123456789'' ! n]
      else str_nat (n div 10) @ [''0123456789'' ! (n mod 10)])"

declare str_nat.simps [simp del]

subsection \<open>create\_directories\<close>

definition create_directories :: "env \<Rightarrow> string \<Rightarrow> world \<Rightarrow> outcome" where
  "create_directories e base_path w =
     and_then (makedirs e (path_join base_path ''songs'')
                 (print_line ''Creating output directories...'' w)) (\<lambda>w.
     and_then (makedirs e (path_join base_path ''albums'') w) (\<lambda>w.
     and_then (makedirs e (path_join base_path ''artists'') w) (\<lambda>w.
     (None, print_line ''Directories created successfully.'' w))))"

subsection \<open>create\_song\_files\<close>

text \<open>The body of the \<^verbatim>\<open>try\<close>, for a song whose title is \<open>t\<close>.\<close>

definition write_song :: "env \<Rightarrow> string \<Rightarrow> song \<Rightarrow> string \<Rightarrow> world \<Rightarrow> outcome" where
  "write_song e song_dir song t w =
     (let filename = sanitize_filename t @ ''.json'';
          filepath = path_join song_dir filename
      in write_json e filepath (SongJson song) w)"

text \<open>
  The body of the loop: the \<^verbatim>\<open>if\<close>, and the \<^verbatim>\<open>except Exception\<close> that prints
  and goes on.
\<close>

definition song_step :: "env \<Rightarrow> string \<Rightarrow> song \<Rightarrow> world \<Rightarrow> world" where
  "song_step e song_dir song w =
     (case title song of
        None \<Rightarrow> w
      | Some t \<Rightarrow>
          if t \<noteq> ''Profile'' then
            (case write_song e song_dir song t w of
               (None, w') \<Rightarrow> w'
             | (Some x, w') \<Rightarrow>
                 print_line (''Could not create file for song: '' @ t
                               @ ''. Error: '' @ str_exn x) w')
          else w)"

fun song_loop :: "env \<Rightarrow> string \<Rightarrow> song list \<Rightarrow> world \<Rightarrow> world" where
  "song_loop e song_dir [] w = w"
| "song_loop e song_dir (song # rest) w = song_loop e song_dir rest (song_step e song_dir song w)"

definition create_song_files :: "env \<Rightarrow> song list \<Rightarrow> string \<Rightarrow> world \<Rightarrow> world" where
  "create_song_files e songs_data base_path w =
     (let w = print_line (''Creating individual files for '' @ str_nat (length songs_data)
                            @ '' songs...'') w;
          song_dir = path_join base_path ''songs'';
          w = song_loop e song_dir songs_data w
      in print_line ''Song files created.'' w)"

subsection \<open>create\_album\_files and create\_artist\_files\<close>

text \<open>
  Both functions group the songs with the same loop, on the key \<^verbatim>\<open>album\<close> or
  \<^verbatim>\<open>artist\<close>: a song whose key is present and not empty is appended to the list of
  its key, which is created empty, after the keys already there, when the key is new.
\<close>

definition dict_append :: "string \<Rightarrow> 'a \<Rightarrow> (string \<times> 'a list) list \<Rightarrow> (string \<times> 'a list) list" where
  "dict_append k v d =
     (let d = (if k \<notin> set (map fst d) then d @ [(k, [])] else d)
      in map (\<lambda>(k', vs). if k' = k then (k', vs @ [v]) else (k', vs)) d)"

definition group_step ::
  "(song \<Rightarrow> string option) \<Rightarrow> song \<Rightarrow> (string \<times> song list) list \<Rightarrow> (string \<times> song list) list"
where
  "group_step key song groups =
     (case key song of
        None \<Rightarrow> groups
      | Some k \<Rightarrow> if k \<noteq> [] then dict_append k song groups else groups)"

fun group_songs ::
  "(song \<Rightarrow> string option) \<Rightarrow> song list \<Rightarrow> (string \<times> song list) list \<Rightarrow> (string \<times> song list) list"
where
  "group_songs key [] groups = groups"
| "group_songs key (song # rest) groups = group_songs key rest (group_step key song groups)"

text \<open>The sort key \<^verbatim>\<open>lambda x: x.get('title', '')\<close>.\<close>

definition title_key :: "song \<Rightarrow> string" where
  "title_key x = (case title x of Some t \<Rightarrow> t | None \<Rightarrow> [])"

text \<open>
  The body of the \<^verbatim>\<open>try\<close> of the album loop. \<^verbatim>\<open>sorted\<close> is a stable sort, as
  \<^const>\<open>sort_key\<close> is; \<^verbatim>\<open>songs_in_album[0]\<close> raises on an empty list.
\<close>

definition write_album :: "env \<Rightarrow> string \<Rightarrow> string \<Rightarrow> song list \<Rightarrow> world \<Rightarrow> outcome" where
  "write_album e album_dir album_title songs_in_album w =
     (let filename = sanitize_filename album_title @ ''.json'';
          filepath = path_join album_dir filename;
          sorted_songs = sort_key title_key songs_in_album
      in case songs_in_album of
           [] \<Rightarrow> (Some (IndexError ''list index out of range''), w)
         | first # _ \<Rightarrow>
             write_json e filepath
               (AlbumJson \<lparr>alb_album_title = album_title,
                           alb_artist = (case artist first of Some a \<Rightarrow> a
                                           | None \<Rightarrow> ''Various Artists''),
                           alb_song_count = length sorted_songs,
                           alb_songs = sorted_songs\<rparr>) w)"

definition album_step :: "env \<Rightarrow> string \<Rightarrow> string \<Rightarrow> song list \<Rightarrow> world \<Rightarrow> world" where
  "album_step e album_dir album_title songs_in_album w =
     (case write_album e album_dir album_title songs_in_album w of
        (None, w') \<Rightarrow> w'
      | (Some x, w') \<Rightarrow>
          print_line (''Could not create file for album: '' @ album_title
                        @ ''. Error: '' @ str_exn x) w')"

fun album_loop :: "env \<Rightarrow> string \<Rightarrow> (string \<times> song list) list \<Rightarrow> world \<Rightarrow> world" where
  "album_loop e album_dir [] w = w"
| "album_loop e album_dir ((album_title, songs_in_album) # rest) w =
     album_loop e album_dir rest (album_step e album_dir album_title songs_in_album w)"

definition create_album_files :: "env \<Rightarrow> song list \<Rightarrow> string \<Rightarrow> world \<Rightarrow> world" where
  "create_album_files e songs_data base_path w =
     (let w = print_line ''Grouping songs by album and creating album files...'' w;
          albums = group_songs album songs_data [];
          album_dir = path_join base_path ''albums'';
          w = album_loop e album_dir albums w
      in print_line ''Album files created.'' w)"

definition write_artist :: "env \<Rightarrow> string \<Rightarrow> string \<Rightarrow> song list \<Rightarrow> world \<Rightarrow> outcome" where
  "write_artist e artist_dir artist_name songs_by_artist w =
     (let filename = sanitize_filename artist_name @ ''.json'';
          filepath = path_join artist_dir filename;
          sorted_songs = sort_key title_key songs_by_artist
      in write_json e filepath
           (ArtistJson \<lparr>art_artist_name = artist_name,
                        art_song_count = length sorted_songs,
                        art_songs = sorted_songs\<rparr>) w)"

definition artist_step :: "env \<Rightarrow> string \<Rightarrow> string \<Rightarrow> song list \<Rightarrow> world \<Rightarrow> world" where
  "artist_step e artist_dir artist_name songs_by_artist w =
     (case write_artist e artist_dir artist_name songs_by_artist w of
        (None, w') \<Rightarrow> w'
      | (Some x, w') \<Rightarrow>
          print_line (''Could not create file for artist: '' @ artist_name
                        @ ''. Error: '' @ str_exn x) w')"

fun artist_loop :: "env \<Rightarrow> string \<Rightarrow> (string \<times> song list) list \<Rightarrow> world \<Rightarrow> world" where
  "artist_loop e artist_dir [] w = w"
| "artist_loop e artist_dir ((artist_name, songs_by_artist) # rest) w =
     artist_loop e artist_dir rest (artist_step e artist_dir artist_name songs_by_artist w)"

definition create_artist_files :: "env \<Rightarrow> song list \<Rightarrow> string \<Rightarrow> world \<Rightarrow> world" where
  "create_artist_files e songs_data base_path w =
     (let w = print_line ''Grouping songs by artist and creating artist files...'' w;
          artists = group_songs artist songs_data [];
          artist_dir = path_join base_path ''artists'';
          w = artist_loop e artist_dir artists w
      in print_line ''Artist files created.'' w)"

subsection \<open>create\_profile\_and\_metadata\_files\<close>

text \<open>
  No \<^verbatim>\<open>try\<close> here: a failed write raises out of the function. The profile is the
  first item of the unfiltered \<^verbatim>\<open>songs\<close> whose title is \<^verbatim>\<open>"Profile"\<close>; such
  a record has a key, so it is truthy.
\<close>

definition create_profile_and_metadata_files :: "env \<Rightarrow> document \<Rightarrow> string \<Rightarrow> world \<Rightarrow> outcome" where
  "create_profile_and_metadata_files e data base_path w =
     and_then
       (case doc_metadata data of
          Some m \<Rightarrow>
            and_then (write_json e (path_join base_path ''metadata.json'') (MetadataJson m)
                        (print_line ''Extracting profile and metadata...'' w)) (\<lambda>w.
            (None, print_line ''metadata.json created.'' w))
        | None \<Rightarrow> (None, print_line ''Extracting profile and metadata...'' w)) (\<lambda>w.
     case find (\<lambda>item. title item = Some ''Profile'')
            (case doc_songs data of Some l \<Rightarrow> l | None \<Rightarrow> []) of
       Some profile_data \<Rightarrow>
         and_then (write_json e (path_join base_path ''artist_profile.json'')
                     (SongJson profile_data) w) (\<lambda>w.
         (None, print_line ''artist_profile.json created.'' w))
     | None \<Rightarrow> (None, w))"

subsection \<open>create\_catalog\_file\<close>

text \<open>
  The loop that fills the two mappings skips a song whose title is absent, empty or
  \<^verbatim>\<open>"Profile"\<close>. A new artist gets an empty list, a new album an entry with the
  artist of the song that creates it; then the title is appended to both.
\<close>

definition catalog_add :: "string \<Rightarrow> string \<Rightarrow> string \<Rightarrow> catalog \<Rightarrow> catalog" where
  "catalog_add artist_v album_v title_v c =
     (let artists = (if artist_v \<notin> set (map fst (cat_artists c))
                      then cat_artists c @ [(artist_v, [])] else cat_artists c);
          artists = map (\<lambda>(k, ts). if k = artist_v then (k, ts @ [title_v]) else (k, ts)) artists;
          albums = (if album_v \<notin> set (map fst (cat_albums c))
                     then cat_albums c @ [(album_v, \<lparr>entry_artist = artist_v, entry_songs = []\<rparr>)]
                     else cat_albums c);
          albums = map (\<lambda>(k, en). if k = album_v
                                      then (k, en\<lparr>entry_songs := entry_songs en @ [title_v]\<rparr>)
                                      else (k, en)) albums
      in c\<lparr>cat_artists := artists, cat_albums := albums\<rparr>)"

definition catalog_step :: "song \<Rightarrow> catalog \<Rightarrow> catalog" where
  "catalog_step song c =
     (case title song of
        None \<Rightarrow> c
      | Some t \<Rightarrow>
          if t = [] \<or> t = ''Profile'' then c
          else catalog_add (case artist song of Some a \<Rightarrow> a | None \<Rightarrow> ''Unknown Artist'')
                 (case album song of Some a \<Rightarrow> a | None \<Rightarrow> ''Uncategorized'') t c)"

fun catalog_loop :: "song list \<Rightarrow> catalog \<Rightarrow> catalog" where
  "catalog_loop [] c = c"
| "catalog_loop (song # rest) c = catalog_loop rest (catalog_step song c)"

text \<open>
  \<^verbatim>\<open>[song['title'] for song in songs_data if 'title' in song and song['title'] != "Profile"]\<close>
\<close>

definition catalog_titles :: "song list \<Rightarrow> string list" where
  "catalog_titles songs_data =
     List.map_filter
       (\<lambda>song. case title song of
                  None \<Rightarrow> None
                | Some t \<Rightarrow> if t \<noteq> ''Profile'' then Some t else None) songs_data"

definition build_catalog :: "song list \<Rightarrow> catalog" where
  "build_catalog songs_data =
     (let c = \<lparr>cat_artists = [], cat_albums = [], cat_songs = []\<rparr>;
          c = c\<lparr>cat_songs := sort (catalog_titles songs_data)\<rparr>;
          c = catalog_loop songs_data c;
          c = c\<lparr>cat_artists := map (\<lambda>(k, ts). (k, sort ts)) (cat_artists c)\<rparr>;
          c = c\<lparr>cat_albums :=
                   map (\<lambda>(k, en). (k, en\<lparr>entry_songs := sort (entry_songs en)\<rparr>)) (cat_albums c)\<rparr>
      in c)"

definition create_catalog_file :: "env \<Rightarrow> song list \<Rightarrow> string \<Rightarrow> world \<Rightarrow> outcome" where
  "create_catalog_file e songs_data base_path w =
     and_then (write_json e (path_join base_path ''catalog.json'')
                 (CatalogJson (build_catalog songs_data))
                 (print_line ''Creating master catalog file...'' w)) (\<lambda>w.
     (None, print_line ''catalog.json created successfully.'' w))"

subsection \<open>process\_songbook\<close>

text \<open>The three diagnostics of the loader.\<close>

definition msg_not_found :: "string \<Rightarrow> string" where
  "msg_not_found input_filepath =
     ''Error: The file '' @ [CHR 0x27] @ input_filepath @ [CHR 0x27] @ '' was not found.''"

definition msg_not_json :: "string \<Rightarrow> string" where
  "msg_not_json input_filepath =
     ''Error: The file '' @ [CHR 0x27] @ input_filepath @ [CHR 0x27] @ '' is not a valid JSON file.''"

definition msg_unexpected :: "string \<Rightarrow> string" where
  "msg_unexpected m = ''An unexpected error occurred while reading the file: '' @ m"

definition process_songbook :: "env \<Rightarrow> string \<Rightarrow> string \<Rightarrow> world \<Rightarrow> outcome" where
  "process_songbook e input_filepath output_dir w =
     (let w = print_line (''Loading songbook from: '' @ input_filepath) w
      in case read_input e input_filepath of
           FileNotFoundError \<Rightarrow> (None, print_line (msg_not_found input_filepath) w)
         | JSONDecodeError \<Rightarrow> (None, print_line (msg_not_json input_filepath) w)
         | OtherException m \<Rightarrow> (None, print_line (msg_unexpected m) w)
         | Loaded data \<Rightarrow>
             (let songs_data = (case doc_songs data of Some l \<Rightarrow> l | None \<Rightarrow> []);
                  songs_only = filter (\<lambda>song. title song \<noteq> Some ''Profile'') songs_data
              in and_then (create_directories e output_dir w) (\<lambda>w.
                 and_then (None, create_song_files e songs_only output_dir w) (\<lambda>w.
                 and_then (None, create_album_files e songs_only output_dir w) (\<lambda>w.
                 and_then (None, create_artist_files e songs_only output_dir w) (\<lambda>w.
                 and_then (create_profile_and_metadata_files e data output_dir w) (\<lambda>w.
                 and_then (create_catalog_file e songs_only output_dir w) (\<lambda>w.
                 (None, print_line (''All files have been saved in the '' @ [CHR 0x27] @ output_dir
                                      @ [CHR 0x27] @ '' directory.'')
                          (print_line (CHR 0x0A # ''Processing complete!'') w))))))))))"

subsection \<open>Notions used to state the properties\<close>

text \<open>
  The working list of \<^verbatim>\<open>process_songbook\<close> (\<^verbatim>\<open>songs_only\<close>), the two writes of
  the profile and metadata stage, and the files a run writes when nothing fails, in the
  order it writes them. \<open>extends w r L\<close> says that the operation with outcome \<open>r\<close>, started
  in \<open>w\<close>, has written a prefix of \<open>L\<close>, and all of \<open>L\<close> if it did not raise.
\<close>

definition profile_and_metadata_writes :: "document \<Rightarrow> string \<Rightarrow> (string \<times> content) list" where
  "profile_and_metadata_writes d base =
     (case doc_metadata d of
        Some m \<Rightarrow> [(path_join base ''metadata.json'', MetadataJson m)]
      | None \<Rightarrow> [])
     @ (case find (\<lambda>item. title item = Some ''Profile'')
               (case doc_songs d of Some l \<Rightarrow> l | None \<Rightarrow> []) of
          Some p \<Rightarrow> [(path_join base ''artist_profile.json'', SongJson p)]
        | None \<Rightarrow> [])"

definition songs_only_of :: "document \<Rightarrow> song list" where
  "songs_only_of d =
     filter (\<lambda>song. title song \<noteq> Some ''Profile'') (case doc_songs d of Some l \<Rightarrow> l | None \<Rightarrow> [])"

definition all_writes :: "env \<Rightarrow> document \<Rightarrow> string \<Rightarrow> (string \<times> content) list" where
  "all_writes e d base =
     files (create_song_files e (songs_only_of d) base initial_world)
     @ files (create_album_files e (songs_only_of d) base initial_world)
     @ files (create_artist_files e (songs_only_of d) base initial_world)
     @ profile_and_metadata_writes d base
     @ [(path_join base ''catalog.json'', CatalogJson (build_catalog (songs_only_of d)))]"

definition extends :: "world \<Rightarrow> outcome \<Rightarrow> (string \<times> content) list \<Rightarrow> bool" where
  "extends w r L =
     (\<exists>ys. files (snd r) = files w @ ys \<and> prefix ys L \<and> (fst r = None \<longrightarrow> ys = L))"

text \<open>The titles listed under the artists and the albums of a catalog.\<close>

definition listed_titles :: "catalog \<Rightarrow> string list" where
  "listed_titles c =
     concat (map snd (cat_artists c)) @ concat (map (\<lambda>(k, en). entry_songs en) (cat_albums c))"


text \<open>The content of the file at a path after a run: the last write to it.\<close>

definition final_file :: "world \<Rightarrow> string \<Rightarrow> content option" where
  "final_file w p = map_of (rev (files w)) p"

subsection \<open>A small songbook\<close>

text \<open>
  Two songs of one album and one artist, out of title order, followed by the profile
  record, with some metadata; and a file system in which \<^verbatim>\<open>in.json\<close> holds this
  document and nothing fails.
\<close>

definition song_B :: song where
  "song_B = \<lparr>title = Some ''B'', album = Some ''Z'', artist = Some ''X'', other_fields = []\<rparr>"

definition song_A :: song where
  "song_A = \<lparr>title = Some ''A'', album = Some ''Z'', artist = Some ''X'', other_fields = []\<rparr>"

definition profile_record :: song where
  "profile_record =
     \<lparr>title = Some ''Profile'', album = None, artist = None,
      other_fields = [(''bio'', JStr ''hi'')]\<rparr>"

definition small_songbook :: document where
  "small_songbook =
     \<lparr>doc_metadata = Some (JObj [(''v'', JNum 1)]),
      doc_songs = Some [song_B, song_A, profile_record]\<rparr>"

definition quiet_env :: "document \<Rightarrow> env" where
  "quiet_env d =
     \<lparr>read_input = (\<lambda>p. if p = ''in.json'' then Loaded d else FileNotFoundError),
      write_error = (\<lambda>p. None),
      mkdir_error = (\<lambda>p. None)\<rparr>"

text \<open>
  A second songbook: a record without a title in album \<open>Z\<close>, before a titled song of the
  same album, then a song with the same title and no album, and the profile record.
\<close>

definition untitled_song :: song where
  "untitled_song =
     \<lparr>title = None, album = Some ''Z'', artist = Some ''X'',
      other_fields = [(''lyrics'', JStr ''la'')]\<rparr>"

definition song_B2 :: song where
  "song_B2 = \<lparr>title = Some ''B'', album = None, artist = Some ''Y'', other_fields = []\<rparr>"

definition mixed_songbook :: document where
  "mixed_songbook =
     \<lparr>doc_metadata = None,
      doc_songs = Some [untitled_song, song_B, song_B2, profile_record]\<rparr>"

text \<open>
  A file system with three unreadable inputs, in which opening a file for writing fails
  with \<^verbatim>\<open>disk full\<close> at the given paths.
\<close>

definition env_failing_at :: "string list \<Rightarrow> env" where
  "env_failing_at paths =
     \<lparr>read_input =
        (\<lambda>p. if p = ''in.json'' then Loaded small_songbook
             else if p = ''broken.json'' then JSONDecodeError
             else if p = ''locked.json'' then OtherException ''Permission denied''
             else FileNotFoundError),
      write_error = (\<lambda>p. if p \<in> set paths then Some ''disk full'' else None),
      mkdir_error = (\<lambda>p. None)\<rparr>"

section \<open>Properties\<close>

subsection \<open>The filename sanitizer\<close>

lemma re_sub_class_delete: "re_sub_class cls [] s = filter (\<lambda>c. c \<notin> set cls) s"
  by (induction s) simp_all

lemma str_replace_char_map:
  "str_replace_char old [new] s = map (\<lambda>c. if c = old then new else c) s"
  by (induction s) simp_all

lemma sanitize_filename_eq:
  "sanitize_filename s =
     map (\<lambda>c. if c = CHR '' '' then CHR ''_'' else c) (filter (\<lambda>c. c \<notin> set invalid_chars) s)"
  by (simp add: sanitize_filename_def re_sub_class_delete str_replace_char_map)

lemma underscore_valid: "CHR ''_'' \<notin> set invalid_chars"
  by (simp add: invalid_chars_def)

lemma sanitize_filename_clean:
  "c \<in> set (sanitize_filename s) \<Longrightarrow> c \<notin> set invalid_chars \<and> c \<noteq> CHR '' ''"
  by (auto simp: sanitize_filename_eq underscore_valid split: if_splits)

lemma sanitize_filename_fixed:
  "\<forall>c \<in> set s. c \<notin> set invalid_chars \<and> c \<noteq> CHR '' '' \<Longrightarrow> sanitize_filename s = s"
  unfolding sanitize_filename_eq by (induction s) auto

text \<open>
  C3. \<^verbatim>\<open>sanitize_filename\<close> deletes every backslash, slash, star, question mark,
  colon, double quote, less-than, greater-than and bar, turns every space into an
  underscore and keeps every other character (control characters among them) where it is:
  the result is the input without the nine characters, read character by character with
  spaces as underscores. Nothing else is dropped, so its length is the number of input
  characters outside the nine. A deleted character leaves nothing behind, so
  \<^verbatim>\<open>"Love/Hate Story"\<close> becomes \<^verbatim>\<open>"LoveHate_Story"\<close>.
\<close>

theorem sanitize_filename_contract:
  "sanitize_filename s =
     map (\<lambda>c. if c = CHR '' '' then CHR ''_'' else c)
       (filter (\<lambda>c. c \<notin> set
          [CHR 0x5C, CHR ''/'', CHR ''*'', CHR ''?'', CHR '':'', CHR 0x22, CHR ''<'', CHR ''>'', CHR ''|'']) s)
   \<and> length (sanitize_filename s) + length (filter (\<lambda>c. c \<in> set invalid_chars) s) = length s
   \<and> sanitize_filename ''Love/Hate Story'' = ''LoveHate_Story''"
proof -
  have len: "length (filter (\<lambda>c. c \<notin> set invalid_chars) s)
               + length (filter (\<lambda>c. c \<in> set invalid_chars) s) = length s"
    using sum_length_filter_compl [of "\<lambda>c. c \<in> set invalid_chars" s] by simp
  have ex: "sanitize_filename ''Love/Hate Story'' = ''LoveHate_Story''"
    by (simp add: sanitize_filename_def invalid_chars_def)
  have eq: "sanitize_filename s =
     map (\<lambda>c. if c = CHR '' '' then CHR ''_'' else c)
       (filter (\<lambda>c. c \<notin> set
          [CHR 0x5C, CHR ''/'', CHR ''*'', CHR ''?'', CHR '':'', CHR 0x22, CHR ''<'', CHR ''>'', CHR ''|'']) s)"
    unfolding sanitize_filename_eq invalid_chars_def ..
  have len': "length (sanitize_filename s) + length (filter (\<lambda>c. c \<in> set invalid_chars) s) = length s"
    using len by (simp only: sanitize_filename_eq length_map)
  show ?thesis by (intro conjI) (rule eq, rule len', rule ex)
qed

text \<open>
  The spec's example for C3 does not hold: the slash of \<^verbatim>\<open>"Love/Hate Story"\<close> is
  deleted, not turned into an underscore.
\<close>

theorem sanitize_filename_example_counterexample:
  "sanitize_filename ''Love/Hate Story'' \<noteq> ''Love_Hate_Story''"
  by (simp add: sanitize_filename_def invalid_chars_def)

text \<open>
  C10. \<^verbatim>\<open>sanitize_filename\<close> is idempotent: a sanitized name holds none of the
  nine deleted characters and no space, and the underscore is not deleted.
\<close>

theorem sanitize_filename_idempotent:
  "sanitize_filename (sanitize_filename s) = sanitize_filename s"
  by (rule sanitize_filename_fixed) (simp add: sanitize_filename_clean)

subsection \<open>Effects of the primitive operations\<close>

lemma files_print_line [simp]: "files (print_line l w) = files w"
  by (simp add: print_line_def)

lemma dirs_print_line [simp]: "dirs (print_line l w) = dirs w"
  by (simp add: print_line_def)

lemma out_print_line [simp]: "out (print_line l w) = out w @ [l]"
  by (simp add: print_line_def)

lemma and_then_None [simp]: "and_then (None, w) f = f w"
  by (simp add: and_then_def)

lemma and_then_Some [simp]: "and_then (Some x, w) f = (Some x, w)"
  by (simp add: and_then_def)

lemma files_initial_world [simp]: "files initial_world = []"
  by (simp add: initial_world_def)

lemma out_initial_world [simp]: "out initial_world = []"
  by (simp add: initial_world_def)

lemma write_json_ok:
  "write_error e p = None \<Longrightarrow> write_json e p x w = (None, w\<lparr>files := files w @ [(p, x)]\<rparr>)"
  by (simp add: write_json_def)

lemma write_json_fails:
  "write_error e p = Some m \<Longrightarrow> write_json e p x w = (Some (OSError m), w)"
  by (simp add: write_json_def)

subsection \<open>The song stage\<close>

lemma song_step_None: "title s = None \<Longrightarrow> song_step e d s w = w"
  by (simp add: song_step_def)

lemma song_step_Profile: "title s = Some ''Profile'' \<Longrightarrow> song_step e d s w = w"
  by (simp add: song_step_def)

lemma song_step_ok:
  "title s = Some t \<Longrightarrow> t \<noteq> ''Profile'' \<Longrightarrow>
   write_error e (path_join d (sanitize_filename t @ ''.json'')) = None \<Longrightarrow>
   song_step e d s w = w\<lparr>files := files w @ [(path_join d (sanitize_filename t @ ''.json''), SongJson s)]\<rparr>"
  by (simp add: song_step_def write_song_def write_json_ok)

lemma song_step_fails:
  "title s = Some t \<Longrightarrow> t \<noteq> ''Profile'' \<Longrightarrow>
   write_error e (path_join d (sanitize_filename t @ ''.json'')) = Some m \<Longrightarrow>
   song_step e d s w = print_line (''Could not create file for song: '' @ t @ ''. Error: '' @ m) w"
  by (simp add: song_step_def write_song_def write_json_fails)

lemma song_step_cases:
  obtains (skip) "title s = None \<or> title s = Some ''Profile''"
  | (ok) t where "title s = Some t" "t \<noteq> ''Profile''"
      "write_error e (path_join d (sanitize_filename t @ ''.json'')) = None"
  | (fails) t m where "title s = Some t" "t \<noteq> ''Profile''"
      "write_error e (path_join d (sanitize_filename t @ ''.json'')) = Some m"
  by (cases "title s") auto

lemma song_step_files:
  "files (song_step e d s w) = files w @ files (song_step e d s initial_world)"
  by (rule song_step_cases [where s=s and e=e and d=d])
     (auto simp: song_step_None song_step_Profile song_step_ok song_step_fails)


lemma song_loop_files:
  "files (song_loop e d songs w) = files w @ concat (map (\<lambda>s. files (song_step e d s initial_world)) songs)"
proof (induction songs arbitrary: w)
  case Nil
  show ?case by simp
next
  case (Cons s songs)
  show ?case
    by (simp add: Cons.IH) (subst song_step_files, simp)
qed


subsection \<open>Grouping\<close>

lemma map_of_map_append_entry:
  "map_of (map (\<lambda>(k', vs). if k' = k then (k', vs @ [v]) else (k', vs)) d) x =
     (if x = k then map_option (\<lambda>g. g @ [v]) (map_of d k) else map_of d x)"
  by (induction d) auto

lemma map_fst_map_append_entry:
  "map fst (map (\<lambda>(k', vs). if k' = k then (k', vs @ [v]) else (k', vs)) d) = map fst d"
  by (induction d) auto

lemma keys_dict_append:
  "map fst (dict_append k v d) = (if k \<in> set (map fst d) then map fst d else map fst d @ [k])"
  by (simp only: dict_append_def Let_def map_fst_map_append_entry) simp

lemma map_of_dict_append:
  "map_of (dict_append k v d) x =
     (if x = k then Some ((case map_of d k of None \<Rightarrow> [] | Some g \<Rightarrow> g) @ [v]) else map_of d x)"
proof (cases "k \<in> set (map fst d)")
  case True
  then obtain g where "map_of d k = Some g"
    by (metis map_of_eq_None_iff not_Some_eq set_map)
  with True show ?thesis
    by (simp add: dict_append_def map_of_map_append_entry del: set_map)
next
  case False
  then have "map_of d k = None"
    by (simp add: map_of_eq_None_iff)
  with False show ?thesis
    by (auto simp: dict_append_def map_of_map_append_entry map_add_def simp del: set_map
             split: option.splits)
qed

lemma distinct_dict_append:
  "distinct (map fst d) \<Longrightarrow> distinct (map fst (dict_append k v d))"
  by (simp add: keys_dict_append del: set_map)

lemma distinct_group_step:
  "distinct (map fst groups) \<Longrightarrow> distinct (map fst (group_step key s groups))"
  by (simp add: group_step_def distinct_dict_append split: option.splits)

lemma distinct_group_songs:
  "distinct (map fst groups) \<Longrightarrow> distinct (map fst (group_songs key songs groups))"
  by (induction songs arbitrary: groups) (simp_all add: distinct_group_step)

lemma map_of_group_step:
  "map_of (group_step key s groups) k =
     (if k \<noteq> [] \<and> key s = Some k
      then Some ((case map_of groups k of None \<Rightarrow> [] | Some g \<Rightarrow> g) @ [s])
      else map_of groups k)"
  by (auto simp: group_step_def map_of_dict_append split: option.splits)

lemma map_of_group_songs:
  "map_of (group_songs key songs groups) k =
     (if k \<noteq> [] \<and> filter (\<lambda>s. key s = Some k) songs \<noteq> []
      then Some ((case map_of groups k of None \<Rightarrow> [] | Some g \<Rightarrow> g)
                   @ filter (\<lambda>s. key s = Some k) songs)
      else map_of groups k)"
proof (induction songs arbitrary: groups)
  case Nil
  show ?case by simp
next
  case (Cons s songs)
  show ?case
    by (simp add: Cons.IH map_of_group_step)
qed

lemma group_songs_member:
  "(k, g) \<in> set (group_songs key songs []) \<longleftrightarrow>
     k \<noteq> [] \<and> g \<noteq> [] \<and> g = filter (\<lambda>s. key s = Some k) songs"
proof -
  have d: "distinct (map fst (group_songs key songs []))"
    by (rule distinct_group_songs) simp
  have "(k, g) \<in> set (group_songs key songs []) \<longleftrightarrow> map_of (group_songs key songs []) k = Some g"
    using d by simp
  then show ?thesis
    by (auto simp: map_of_group_songs)
qed

lemma filter_Cons_find: "filter P xs = y # ys \<Longrightarrow> find P xs = Some y"
  by (induction xs) (auto split: if_splits)

subsection \<open>The album stage\<close>

lemma album_step_empty:
  "album_step e d k [] w =
     print_line (''Could not create file for album: '' @ k @ ''. Error: list index out of range'') w"
  by (simp add: album_step_def write_album_def)

lemma album_step_ok:
  "write_error e (path_join d (sanitize_filename k @ ''.json'')) = None \<Longrightarrow>
   album_step e d k (first # rest) w =
     w\<lparr>files := files w @
        [(path_join d (sanitize_filename k @ ''.json''),
          AlbumJson \<lparr>alb_album_title = k,
                      alb_artist = (case artist first of Some a \<Rightarrow> a | None \<Rightarrow> ''Various Artists''),
                      alb_song_count = length (sort_key title_key (first # rest)),
                      alb_songs = sort_key title_key (first # rest)\<rparr>)]\<rparr>"
  by (simp add: album_step_def write_album_def write_json_ok Let_def del: sort_key_simps length_sort)

lemma album_step_fails:
  "write_error e (path_join d (sanitize_filename k @ ''.json'')) = Some m \<Longrightarrow>
   album_step e d k (first # rest) w =
     print_line (''Could not create file for album: '' @ k @ ''. Error: '' @ m) w"
  by (simp add: album_step_def write_album_def write_json_fails)

lemma album_step_cases:
  obtains (empty) "g = []"
  | (ok) first rest where "g = first # rest"
      "write_error e (path_join d (sanitize_filename k @ ''.json'')) = None"
  | (fails) first rest m where "g = first # rest"
      "write_error e (path_join d (sanitize_filename k @ ''.json'')) = Some m"
  by (cases g; cases "write_error e (path_join d (sanitize_filename k @ ''.json''))") auto

lemma album_step_files:
  "files (album_step e d k g w) = files w @ files (album_step e d k g initial_world)"
  by (rule album_step_cases [where g=g and e=e and d=d and k=k])
     (simp_all add: album_step_empty album_step_ok album_step_fails del: sort_key_simps length_sort)


lemma album_loop_files:
  "files (album_loop e d groups w) =
     files w @ concat (map (\<lambda>(k, g). files (album_step e d k g initial_world)) groups)"
proof (induction groups arbitrary: w)
  case Nil
  show ?case by simp
next
  case (Cons kg groups)
  obtain k g where kg: "kg = (k, g)" by (cases kg)
  show ?case
    unfolding kg by (simp add: Cons.IH) (subst album_step_files, simp)
qed


subsection \<open>The artist stage\<close>

lemma artist_step_ok:
  "write_error e (path_join d (sanitize_filename k @ ''.json'')) = None \<Longrightarrow>
   artist_step e d k g w =
     w\<lparr>files := files w @
        [(path_join d (sanitize_filename k @ ''.json''),
          ArtistJson \<lparr>art_artist_name = k,
                       art_song_count = length (sort_key title_key g),
                       art_songs = sort_key title_key g\<rparr>)]\<rparr>"
  by (simp add: artist_step_def write_artist_def write_json_ok Let_def del: sort_key_simps length_sort)

lemma artist_step_fails:
  "write_error e (path_join d (sanitize_filename k @ ''.json'')) = Some m \<Longrightarrow>
   artist_step e d k g w =
     print_line (''Could not create file for artist: '' @ k @ ''. Error: '' @ m) w"
  by (simp add: artist_step_def write_artist_def write_json_fails)

lemma artist_step_files:
  "files (artist_step e d k g w) = files w @ files (artist_step e d k g initial_world)"
  by (cases "write_error e (path_join d (sanitize_filename k @ ''.json''))")
     (simp_all add: artist_step_ok artist_step_fails del: sort_key_simps length_sort)


lemma artist_loop_files:
  "files (artist_loop e d groups w) =
     files w @ concat (map (\<lambda>(k, g). files (artist_step e d k g initial_world)) groups)"
proof (induction groups arbitrary: w)
  case Nil
  show ?case by simp
next
  case (Cons kg groups)
  obtain k g where kg: "kg = (k, g)" by (cases kg)
  show ?case
    unfolding kg by (simp add: Cons.IH) (subst artist_step_files, simp)
qed


subsection \<open>A whole run\<close>

lemma extendsI:
  "files (snd r) = files w @ ys \<Longrightarrow> prefix ys L \<Longrightarrow> (fst r = None \<Longrightarrow> ys = L) \<Longrightarrow> extends w r L"
  by (auto simp: extends_def)

lemma extends_and_then:
  assumes r: "extends w r L1"
    and f: "\<And>w'. extends w' (f w') L2"
  shows "extends w (and_then r f) (L1 @ L2)"
proof (cases "fst r")
  case None
  then have r_eq: "r = (None, snd r)" by (cases r) simp
  from r None have fr: "files (snd r) = files w @ L1"
    by (auto simp: extends_def)
  from f [of "snd r"] obtain zs where
    zs: "files (snd (f (snd r))) = files (snd r) @ zs" "prefix zs L2"
        "fst (f (snd r)) = None \<longrightarrow> zs = L2"
    by (auto simp: extends_def)
  have at: "and_then r f = f (snd r)"
    by (subst r_eq) simp
  show ?thesis
    unfolding at
    by (rule extendsI [where ys = "L1 @ zs"]) (use zs fr in auto)
next
  case (Some x)
  then have r_eq: "r = (Some x, snd r)" by (cases r) simp
  have at: "and_then r f = r"
    by (subst r_eq, subst (2) r_eq) simp
  from r obtain ys where "files (snd r) = files w @ ys" "prefix ys L1"
    by (auto simp: extends_def)
  then show ?thesis
    unfolding at using Some
    by (intro extendsI [where ys = ys]) (auto intro: prefix_order.trans)
qed

lemma extends_total:
  "files w' = files w @ L \<Longrightarrow> extends w (None, w') L"
  by (simp add: extends_def)

lemma extends_write_json:
  "extends w (write_json e p x w) [(p, x)]"
  by (cases "write_error e p") (auto simp: extends_def write_json_def)

lemma extends_makedirs: "extends w (makedirs e p w) []"
  by (cases "mkdir_error e p") (auto simp: extends_def makedirs_def)

lemma extends_print_line: "extends w r L \<Longrightarrow> extends (print_line l w) r L"
  by (simp add: extends_def)

lemma extends_create_directories: "extends w (create_directories e base w) []"
proof -
  have "extends (print_line ''Creating output directories...'' w)
          (create_directories e base w) ([] @ [] @ [] @ [])"
    unfolding create_directories_def
    by (intro extends_and_then extends_makedirs extends_total) simp
  then show ?thesis by (simp add: extends_def)
qed

lemma create_song_files_files:
  "files (create_song_files e songs base w) =
     files w @ files (create_song_files e songs base initial_world)"
  by (simp add: create_song_files_def Let_def song_loop_files)

lemma create_album_files_files:
  "files (create_album_files e songs base w) =
     files w @ files (create_album_files e songs base initial_world)"
  by (simp add: create_album_files_def Let_def album_loop_files)

lemma create_artist_files_files:
  "files (create_artist_files e songs base w) =
     files w @ files (create_artist_files e songs base initial_world)"
  by (simp add: create_artist_files_def Let_def artist_loop_files)

lemma extends_profile_and_metadata:
  "extends w (create_profile_and_metadata_files e d base w) (profile_and_metadata_writes d base)"
proof -
  have m: "extends w
      (case doc_metadata d of
          Some m \<Rightarrow>
            and_then (write_json e (path_join base ''metadata.json'') (MetadataJson m)
                        (print_line ''Extracting profile and metadata...'' w)) (\<lambda>w.
            (None, print_line ''metadata.json created.'' w))
        | None \<Rightarrow> (None, print_line ''Extracting profile and metadata...'' w))
      (case doc_metadata d of
        Some m \<Rightarrow> [(path_join base ''metadata.json'', MetadataJson m)]
      | None \<Rightarrow> [])"
  proof (cases "doc_metadata d")
    case None
    then show ?thesis by (simp add: extends_def)
  next
    case (Some m)
    have "extends (print_line ''Extracting profile and metadata...'' w)
            (and_then (write_json e (path_join base ''metadata.json'') (MetadataJson m)
                        (print_line ''Extracting profile and metadata...'' w)) (\<lambda>w.
            (None, print_line ''metadata.json created.'' w)))
            ([(path_join base ''metadata.json'', MetadataJson m)] @ [])"
      by (intro extends_and_then extends_write_json extends_total) simp
    then show ?thesis using Some by (simp add: extends_def)
  qed
  have p: "extends w'
      (case find (\<lambda>item. title item = Some ''Profile'')
            (case doc_songs d of Some l \<Rightarrow> l | None \<Rightarrow> []) of
       Some profile_data \<Rightarrow>
         and_then (write_json e (path_join base ''artist_profile.json'')
                     (SongJson profile_data) w') (\<lambda>w.
         (None, print_line ''artist_profile.json created.'' w))
     | None \<Rightarrow> (None, w'))
     (case find (\<lambda>item. title item = Some ''Profile'')
               (case doc_songs d of Some l \<Rightarrow> l | None \<Rightarrow> []) of
          Some p \<Rightarrow> [(path_join base ''artist_profile.json'', SongJson p)]
        | None \<Rightarrow> [])" for w'
  proof (cases "find (\<lambda>item. title item = Some ''Profile'')
            (case doc_songs d of Some l \<Rightarrow> l | None \<Rightarrow> [])")
    case None
    then show ?thesis by (simp add: extends_def)
  next
    case (Some q)
    have "extends w'
            (and_then (write_json e (path_join base ''artist_profile.json'') (SongJson q) w') (\<lambda>w.
               (None, print_line ''artist_profile.json created.'' w)))
            ([(path_join base ''artist_profile.json'', SongJson q)] @ [])"
      by (intro extends_and_then extends_write_json extends_total) simp
    then show ?thesis using Some by simp
  qed
  show ?thesis
    unfolding create_profile_and_metadata_files_def profile_and_metadata_writes_def
    by (rule extends_and_then [OF m p])
qed

lemma extends_create_catalog_file:
  "extends w (create_catalog_file e songs base w)
     [(path_join base ''catalog.json'', CatalogJson (build_catalog songs))]"
proof -
  have "extends (print_line ''Creating master catalog file...'' w)
          (create_catalog_file e songs base w)
          ([(path_join base ''catalog.json'', CatalogJson (build_catalog songs))] @ [])"
    unfolding create_catalog_file_def
    by (intro extends_and_then extends_write_json extends_total) simp
  then show ?thesis by (simp add: extends_def)
qed

lemma process_songbook_Loaded:
  assumes "read_input e inp = Loaded d"
  shows "extends w (process_songbook e inp base w) (all_writes e d base)"
proof -
  have "extends (print_line (''Loading songbook from: '' @ inp) w)
          (process_songbook e inp base w)
          ([] @ files (create_song_files e (songs_only_of d) base initial_world)
              @ files (create_album_files e (songs_only_of d) base initial_world)
              @ files (create_artist_files e (songs_only_of d) base initial_world)
              @ profile_and_metadata_writes d base
              @ [(path_join base ''catalog.json'', CatalogJson (build_catalog (songs_only_of d)))]
              @ [])"
    unfolding process_songbook_def Let_def assms load_outcome.case songs_only_of_def [symmetric]
    by (intro extends_and_then extends_create_directories extends_profile_and_metadata
          extends_create_catalog_file extends_total)
       (simp_all add: create_song_files_files [symmetric] create_album_files_files [symmetric]
          create_artist_files_files [symmetric])
  then show ?thesis by (simp add: extends_def all_writes_def)
qed

lemma process_songbook_not_Loaded:
  assumes "\<And>d. read_input e inp \<noteq> Loaded d"
  shows "files (snd (process_songbook e inp base w)) = files w"
    and "dirs (snd (process_songbook e inp base w)) = dirs w"
    and "fst (process_songbook e inp base w) = None"
  using assms by (cases "read_input e inp"; simp add: process_songbook_def)+

subsection \<open>The catalog\<close>

lemma catalog_titles_Nil [simp]: "catalog_titles [] = []"
  by (simp add: catalog_titles_def List.map_filter_simps)

lemma catalog_titles_Cons:
  "catalog_titles (s # songs) =
     (case title s of None \<Rightarrow> [] | Some t \<Rightarrow> if t \<noteq> ''Profile'' then [t] else [])
     @ catalog_titles songs"
  by (simp add: catalog_titles_def List.map_filter_simps split: option.splits)

lemma catalog_titles_eq:
  "catalog_titles songs = filter (\<lambda>t. t \<noteq> ''Profile'') (List.map_filter title songs)"
  by (induction songs) (simp_all add: catalog_titles_Cons List.map_filter_simps split: option.splits)

lemma catalog_titles_filter:
  "(\<And>s. s \<in> set songs \<Longrightarrow> \<not> Q s \<Longrightarrow> title s = None \<or> title s = Some ''Profile'') \<Longrightarrow>
   catalog_titles (filter Q songs) = catalog_titles songs"
proof (induction songs)
  case Nil
  show ?case by simp
next
  case (Cons s songs)
  have IH: "catalog_titles (filter Q songs) = catalog_titles songs"
    using Cons by simp
  show ?case
  proof (cases "Q s")
    case True
    then show ?thesis using IH by (simp add: catalog_titles_Cons)
  next
    case False
    then have "title s = None \<or> title s = Some ''Profile''"
      using Cons.prems [of s] by simp
    then show ?thesis using False IH
      by (auto simp: catalog_titles_Cons)
  qed
qed

lemma catalog_step_skip:
  "title s = None \<or> title s = Some ''Profile'' \<Longrightarrow> catalog_step s c = c"
  by (auto simp: catalog_step_def)

lemma catalog_loop_filter:
  "(\<And>s. s \<in> set songs \<Longrightarrow> \<not> Q s \<Longrightarrow> title s = None \<or> title s = Some ''Profile'') \<Longrightarrow>
   catalog_loop (filter Q songs) c = catalog_loop songs c"
proof (induction songs arbitrary: c)
  case Nil
  show ?case by simp
next
  case (Cons s songs)
  show ?case
  proof (cases "Q s")
    case True
    then show ?thesis using Cons by simp
  next
    case False
    then have "catalog_step s c = c"
      using Cons.prems [of s] by (simp add: catalog_step_skip)
    then show ?thesis using False Cons by simp
  qed
qed

lemma build_catalog_filter:
  "(\<And>s. s \<in> set songs \<Longrightarrow> \<not> Q s \<Longrightarrow> title s = None \<or> title s = Some ''Profile'') \<Longrightarrow>
   build_catalog (filter Q songs) = build_catalog songs"
  by (simp add: build_catalog_def catalog_titles_filter catalog_loop_filter)

lemma cat_songs_catalog_add [simp]: "cat_songs (catalog_add a b t c) = cat_songs c"
  by (simp add: catalog_add_def Let_def)

lemma cat_songs_catalog_step [simp]: "cat_songs (catalog_step s c) = cat_songs c"
  by (simp add: catalog_step_def split: option.splits)

lemma cat_songs_catalog_loop [simp]: "cat_songs (catalog_loop songs c) = cat_songs c"
  by (induction songs arbitrary: c) simp_all

lemma cat_songs_build_catalog:
  "cat_songs (build_catalog songs) = sort (catalog_titles songs)"
  by (simp add: build_catalog_def Let_def)

lemma titles_append_artist:
  "set (concat (map snd (map (\<lambda>(k, ts). if k = a then (k, ts @ [t]) else (k, ts)) d))) =
     set (concat (map snd d)) \<union> (if a \<in> set (map fst d) then {t} else {})"
proof (induction d)
  case Nil
  show ?case by simp
next
  case (Cons x d)
  obtain k ts where x: "x = (k, ts)" by (cases x)
  show ?case unfolding x using Cons.IH by auto
qed

lemma titles_append_album:
  "set (concat (map (\<lambda>(k, en). entry_songs en)
          (map (\<lambda>(k, en). if k = b then (k, en\<lparr>entry_songs := entry_songs en @ [t]\<rparr>)
                           else (k, en)) d))) =
     set (concat (map (\<lambda>(k, en). entry_songs en) d)) \<union> (if b \<in> set (map fst d) then {t} else {})"
proof (induction d)
  case Nil
  show ?case by simp
next
  case (Cons x d)
  obtain k en where x: "x = (k, en)" by (cases x)
  show ?case unfolding x using Cons.IH by auto
qed

lemma listed_titles_catalog_add:
  "set (listed_titles (catalog_add a b t c)) = insert t (set (listed_titles c))"
proof -
  have 1: "set (concat (map snd (cat_artists (catalog_add a b t c)))) =
             insert t (set (concat (map snd (cat_artists c))))"
    unfolding catalog_add_def Let_def
    by (simp add: titles_append_artist del: set_concat set_map map_map)
  have 2: "set (concat (map (\<lambda>(k, en). entry_songs en) (cat_albums (catalog_add a b t c)))) =
             insert t (set (concat (map (\<lambda>(k, en). entry_songs en) (cat_albums c))))"
    unfolding catalog_add_def Let_def
    by (simp add: titles_append_album del: set_concat set_map map_map)
  show ?thesis
    unfolding listed_titles_def set_append 1 2 by blast
qed

lemma listed_titles_catalog_step:
  "set (listed_titles (catalog_step s c)) \<subseteq>
     set (listed_titles c) \<union> {t. title s = Some t \<and> t \<noteq> [] \<and> t \<noteq> ''Profile''}"
  by (auto simp: catalog_step_def listed_titles_catalog_add split: option.splits)

lemma listed_titles_catalog_loop:
  "set (listed_titles (catalog_loop songs c)) \<subseteq>
     set (listed_titles c) \<union> {t. t \<noteq> [] \<and> t \<noteq> ''Profile'' \<and> Some t \<in> title ` set songs}"
proof (induction songs arbitrary: c)
  case Nil
  show ?case by simp
next
  case (Cons s songs)
  have a: "set (listed_titles (catalog_loop songs (catalog_step s c))) \<subseteq>
     set (listed_titles (catalog_step s c))
       \<union> {t. t \<noteq> [] \<and> t \<noteq> ''Profile'' \<and> Some t \<in> title ` set songs}"
    by (rule Cons.IH)
  have b: "{t. title s = Some t \<and> t \<noteq> [] \<and> t \<noteq> ''Profile''}
             \<subseteq> {t. t \<noteq> [] \<and> t \<noteq> ''Profile'' \<and> Some t \<in> title ` set (s # songs)}"
    by force
  have c: "{t. t \<noteq> [] \<and> t \<noteq> ''Profile'' \<and> Some t \<in> title ` set songs}
             \<subseteq> {t. t \<noteq> [] \<and> t \<noteq> ''Profile'' \<and> Some t \<in> title ` set (s # songs)}"
    by auto
  show ?case
    unfolding catalog_loop.simps
    using a listed_titles_catalog_step [of s c] b c by blast
qed

lemma set_concat_map_sort_artists:
  "set (concat (map snd (map (\<lambda>(k, ts). (k, sort ts)) d))) = set (concat (map snd d))"
  by (induction d) auto

lemma set_concat_map_sort_albums:
  "set (concat (map (\<lambda>(k, en). entry_songs en)
          (map (\<lambda>(k, en). (k, en\<lparr>entry_songs := sort (entry_songs en)\<rparr>)) d))) =
     set (concat (map (\<lambda>(k, en). entry_songs en) d))"
  by (induction d) auto

lemma listed_titles_build_catalog:
  "set (listed_titles (build_catalog songs)) \<subseteq>
     {t. t \<noteq> [] \<and> t \<noteq> ''Profile'' \<and> Some t \<in> title ` set songs}"
proof -
  let ?c0 = "\<lparr>cat_artists = [], cat_albums = [], cat_songs = sort (catalog_titles songs)\<rparr>"
  have "set (listed_titles (build_catalog songs)) = set (listed_titles (catalog_loop songs ?c0))"
    unfolding build_catalog_def Let_def listed_titles_def
    by (simp add: set_concat_map_sort_artists set_concat_map_sort_albums del: set_concat map_map)
  also have "\<dots> \<subseteq> set (listed_titles ?c0)
     \<union> {t. t \<noteq> [] \<and> t \<noteq> ''Profile'' \<and> Some t \<in> title ` set songs}"
    by (rule listed_titles_catalog_loop)
  finally show ?thesis by (simp add: listed_titles_def)
qed

subsection \<open>What each stage writes\<close>

lemma song_step_files_initial:
  "files (song_step e d s initial_world) =
     (case title s of
        None \<Rightarrow> []
      | Some t \<Rightarrow>
          if t \<noteq> ''Profile'' \<and> write_error e (path_join d (sanitize_filename t @ ''.json'')) = None
          then [(path_join d (sanitize_filename t @ ''.json''), SongJson s)] else [])"
  by (rule song_step_cases [where s=s and e=e and d=d])
     (auto simp: song_step_None song_step_Profile song_step_ok song_step_fails)

lemma create_song_files_initial:
  "files (create_song_files e songs base initial_world) =
     concat (map (\<lambda>s. files (song_step e (path_join base ''songs'') s initial_world)) songs)"
  by (simp add: create_song_files_def Let_def song_loop_files)

lemma create_album_files_initial:
  "files (create_album_files e songs base initial_world) =
     concat (map (\<lambda>(k, g). files (album_step e (path_join base ''albums'') k g initial_world))
               (group_songs album songs []))"
  by (simp add: create_album_files_def Let_def album_loop_files)

lemma create_artist_files_initial:
  "files (create_artist_files e songs base initial_world) =
     concat (map (\<lambda>(k, g). files (artist_step e (path_join base ''artists'') k g initial_world))
               (group_songs artist songs []))"
  by (simp add: create_artist_files_def Let_def artist_loop_files)

lemma mem_song_files:
  "x \<in> set (files (create_song_files e songs base initial_world)) \<longleftrightarrow>
     (\<exists>s t. s \<in> set songs \<and> title s = Some t \<and> t \<noteq> ''Profile''
        \<and> write_error e (path_join (path_join base ''songs'') (sanitize_filename t @ ''.json'')) = None
        \<and> x = (path_join (path_join base ''songs'') (sanitize_filename t @ ''.json''), SongJson s))"
  (is "?L \<longleftrightarrow> ?R")
proof
  assume ?L
  then obtain s where s: "s \<in> set songs"
    and x: "x \<in> set (files (song_step e (path_join base ''songs'') s initial_world))"
    by (auto simp: create_song_files_initial)
  from x obtain t where "title s = Some t" "t \<noteq> ''Profile''"
    "write_error e (path_join (path_join base ''songs'') (sanitize_filename t @ ''.json'')) = None"
    "x = (path_join (path_join base ''songs'') (sanitize_filename t @ ''.json''), SongJson s)"
    unfolding song_step_files_initial by (cases "title s") (auto split: if_splits)
  with s show ?R by blast
next
  assume ?R
  then obtain s t where s: "s \<in> set songs" and t: "title s = Some t" "t \<noteq> ''Profile''"
    "write_error e (path_join (path_join base ''songs'') (sanitize_filename t @ ''.json'')) = None"
    "x = (path_join (path_join base ''songs'') (sanitize_filename t @ ''.json''), SongJson s)"
    by blast
  have "x \<in> set (files (song_step e (path_join base ''songs'') s initial_world))"
    unfolding song_step_files_initial using t by simp
  with s show ?L
    unfolding create_song_files_initial by auto
qed

lemma album_step_files_initial:
  "files (album_step e d k g initial_world) =
     (case g of
        [] \<Rightarrow> []
      | first # rest \<Rightarrow>
          if write_error e (path_join d (sanitize_filename k @ ''.json'')) = None
          then [(path_join d (sanitize_filename k @ ''.json''),
                 AlbumJson \<lparr>alb_album_title = k,
                      alb_artist = (case artist first of Some a \<Rightarrow> a | None \<Rightarrow> ''Various Artists''),
                      alb_song_count = length (sort_key title_key g),
                      alb_songs = sort_key title_key g\<rparr>)]
          else [])"
  by (rule album_step_cases [where g=g and e=e and d=d and k=k])
     (simp_all add: album_step_empty album_step_ok album_step_fails del: sort_key_simps length_sort)

lemma mem_album_files:
  "x \<in> set (files (create_album_files e songs base initial_world)) \<longleftrightarrow>
     (\<exists>k first rest. k \<noteq> [] \<and> filter (\<lambda>s. album s = Some k) songs = first # rest
        \<and> write_error e (path_join (path_join base ''albums'') (sanitize_filename k @ ''.json'')) = None
        \<and> x = (path_join (path_join base ''albums'') (sanitize_filename k @ ''.json''),
                AlbumJson \<lparr>alb_album_title = k,
                      alb_artist = (case artist first of Some a \<Rightarrow> a | None \<Rightarrow> ''Various Artists''),
                      alb_song_count = length (sort_key title_key (first # rest)),
                      alb_songs = sort_key title_key (first # rest)\<rparr>))"
  (is "?L \<longleftrightarrow> ?R")
proof
  assume ?L
  then obtain k g where kg: "(k, g) \<in> set (group_songs album songs [])"
    and x: "x \<in> set (files (album_step e (path_join base ''albums'') k g initial_world))"
    by (auto simp: create_album_files_initial)
  from kg have g: "k \<noteq> []" "g \<noteq> []" "g = filter (\<lambda>s. album s = Some k) songs"
    by (auto simp: group_songs_member)
  from g(2) obtain first rest where fr: "g = first # rest" by (cases g) auto
  from x have "write_error e (path_join (path_join base ''albums'') (sanitize_filename k @ ''.json'')) = None"
    and "x = (path_join (path_join base ''albums'') (sanitize_filename k @ ''.json''),
                AlbumJson \<lparr>alb_album_title = k,
                      alb_artist = (case artist first of Some a \<Rightarrow> a | None \<Rightarrow> ''Various Artists''),
                      alb_song_count = length (sort_key title_key (first # rest)),
                      alb_songs = sort_key title_key (first # rest)\<rparr>)"
    unfolding album_step_files_initial fr list.case
    by (auto split: if_splits simp del: sort_key_simps length_sort)
  moreover have "filter (\<lambda>s. album s = Some k) songs = first # rest"
    using g(3) fr by simp
  ultimately show ?R using g(1) by blast
next
  assume ?R
  then obtain k first rest where k: "k \<noteq> []"
    and f: "filter (\<lambda>s. album s = Some k) songs = first # rest"
    and w: "write_error e (path_join (path_join base ''albums'') (sanitize_filename k @ ''.json'')) = None"
    and x: "x = (path_join (path_join base ''albums'') (sanitize_filename k @ ''.json''),
                AlbumJson \<lparr>alb_album_title = k,
                      alb_artist = (case artist first of Some a \<Rightarrow> a | None \<Rightarrow> ''Various Artists''),
                      alb_song_count = length (sort_key title_key (first # rest)),
                      alb_songs = sort_key title_key (first # rest)\<rparr>)"
    by blast
  have kg: "(k, first # rest) \<in> set (group_songs album songs [])"
    using k f by (simp add: group_songs_member)
  have "x \<in> set (files (album_step e (path_join base ''albums'') k (first # rest) initial_world))"
    unfolding album_step_files_initial list.case using w x by simp
  with kg show ?L
    unfolding create_album_files_initial by (auto simp del: sort_key_simps length_sort)
qed

lemma artist_step_files_initial:
  "files (artist_step e d k g initial_world) =
     (if write_error e (path_join d (sanitize_filename k @ ''.json'')) = None
      then [(path_join d (sanitize_filename k @ ''.json''),
             ArtistJson \<lparr>art_artist_name = k,
                       art_song_count = length (sort_key title_key g),
                       art_songs = sort_key title_key g\<rparr>)]
      else [])"
  by (cases "write_error e (path_join d (sanitize_filename k @ ''.json''))")
     (simp_all add: artist_step_ok artist_step_fails del: sort_key_simps length_sort)

lemma mem_artist_files:
  "x \<in> set (files (create_artist_files e songs base initial_world)) \<longleftrightarrow>
     (\<exists>k g. k \<noteq> [] \<and> g \<noteq> [] \<and> g = filter (\<lambda>s. artist s = Some k) songs
        \<and> write_error e (path_join (path_join base ''artists'') (sanitize_filename k @ ''.json'')) = None
        \<and> x = (path_join (path_join base ''artists'') (sanitize_filename k @ ''.json''),
                ArtistJson \<lparr>art_artist_name = k,
                       art_song_count = length (sort_key title_key g),
                       art_songs = sort_key title_key g\<rparr>))"
  (is "?L \<longleftrightarrow> ?R")
proof
  assume ?L
  then obtain k g where kg: "(k, g) \<in> set (group_songs artist songs [])"
    and x: "x \<in> set (files (artist_step e (path_join base ''artists'') k g initial_world))"
    by (auto simp: create_artist_files_initial)
  from kg have g: "k \<noteq> []" "g \<noteq> []" "g = filter (\<lambda>s. artist s = Some k) songs"
    by (auto simp: group_songs_member)
  from x show ?R
    unfolding artist_step_files_initial
    using g by (auto split: if_splits simp del: sort_key_simps length_sort)
next
  assume ?R
  then obtain k g where g: "k \<noteq> []" "g \<noteq> []" "g = filter (\<lambda>s. artist s = Some k) songs"
    and w: "write_error e (path_join (path_join base ''artists'') (sanitize_filename k @ ''.json'')) = None"
    and x: "x = (path_join (path_join base ''artists'') (sanitize_filename k @ ''.json''),
                ArtistJson \<lparr>art_artist_name = k,
                       art_song_count = length (sort_key title_key g),
                       art_songs = sort_key title_key g\<rparr>)"
    by blast
  have kg: "(k, g) \<in> set (group_songs artist songs [])"
    using g by (simp add: group_songs_member)
  have "x \<in> set (files (artist_step e (path_join base ''artists'') k g initial_world))"
    unfolding artist_step_files_initial using w x by simp
  with kg show ?L
    unfolding create_artist_files_initial by (auto simp del: sort_key_simps length_sort)
qed

text \<open>Every write of a run is one of the writes of a run in which nothing fails.\<close>

lemma run_files_subset:
  "read_input e inp = Loaded d \<Longrightarrow>
   set (files (snd (process_songbook e inp base initial_world))) \<subseteq> set (all_writes e d base)"
  using process_songbook_Loaded [of e inp d initial_world base]
  by (auto simp: extends_def dest: set_mono_prefix)

lemma run_files_completed:
  "read_input e inp = Loaded d \<Longrightarrow> fst (process_songbook e inp base initial_world) = None \<Longrightarrow>
   files (snd (process_songbook e inp base initial_world)) = all_writes e d base"
  using process_songbook_Loaded [of e inp d initial_world base]
  by (auto simp: extends_def)

lemma run_files_not_Loaded:
  "(\<And>d. read_input e inp \<noteq> Loaded d) \<Longrightarrow>
   files (snd (process_songbook e inp base initial_world)) = []"
  by (simp add: process_songbook_not_Loaded)

subsection \<open>The writes of a run, by kind\<close>

lemma song_files_kind:
  "(p, c) \<in> set (files (create_song_files e songs base initial_world)) \<Longrightarrow> \<exists>s. c = SongJson s"
  by (auto simp: mem_song_files)

lemma album_files_kind:
  "(p, c) \<in> set (files (create_album_files e songs base initial_world)) \<Longrightarrow> \<exists>a. c = AlbumJson a"
  unfolding mem_album_files by blast

lemma artist_files_kind:
  "(p, c) \<in> set (files (create_artist_files e songs base initial_world)) \<Longrightarrow> \<exists>a. c = ArtistJson a"
  unfolding mem_artist_files by blast

lemma profile_and_metadata_writes_kind:
  "(p, c) \<in> set (profile_and_metadata_writes d base) \<Longrightarrow>
     (\<exists>m. c = MetadataJson m) \<or>
     (\<exists>r. c = SongJson r \<and> p = path_join base ''artist_profile.json''
          \<and> find (\<lambda>item. title item = Some ''Profile'')
                (case doc_songs d of Some l \<Rightarrow> l | None \<Rightarrow> []) = Some r)"
  by (auto simp: profile_and_metadata_writes_def split: option.splits)

lemma all_writes_album:
  "(p, AlbumJson a) \<in> set (all_writes e d base) \<longleftrightarrow>
   (p, AlbumJson a) \<in> set (files (create_album_files e (songs_only_of d) base initial_world))"
  unfolding all_writes_def
  by (auto dest: song_files_kind artist_files_kind profile_and_metadata_writes_kind)

lemma all_writes_artist:
  "(p, ArtistJson a) \<in> set (all_writes e d base) \<longleftrightarrow>
   (p, ArtistJson a) \<in> set (files (create_artist_files e (songs_only_of d) base initial_world))"
  unfolding all_writes_def
  by (auto dest: song_files_kind album_files_kind profile_and_metadata_writes_kind)

lemma all_writes_catalog:
  "(p, CatalogJson c) \<in> set (all_writes e d base) \<longleftrightarrow>
   p = path_join base ''catalog.json'' \<and> c = build_catalog (songs_only_of d)"
  unfolding all_writes_def
  by (auto dest: song_files_kind album_files_kind artist_files_kind profile_and_metadata_writes_kind)

lemma all_writes_song:
  "(p, SongJson s) \<in> set (all_writes e d base) \<longleftrightarrow>
   (p, SongJson s) \<in> set (files (create_song_files e (songs_only_of d) base initial_world))
   \<or> (p, SongJson s) \<in> set (profile_and_metadata_writes d base)"
  unfolding all_writes_def
  by (auto dest: album_files_kind artist_files_kind)

lemma run_files_cases:
  assumes "x \<in> set (files (snd (process_songbook e inp base initial_world)))"
  obtains d where "read_input e inp = Loaded d" "x \<in> set (all_writes e d base)"
proof (cases "read_input e inp")
  case (Loaded d)
  then show ?thesis using assms run_files_subset [OF Loaded, of base] that by blast
qed (use assms in \<open>simp_all add: run_files_not_Loaded\<close>)

text \<open>
  C4. In every album file and every artist file a run writes, the \<^verbatim>\<open>songs\<close> list is
  in ascending order of title (the sort key of a song without a title is the empty
  string), and \<^verbatim>\<open>song_count\<close> is the length of that list.
\<close>

theorem album_and_artist_files_sorted:
  "((p, AlbumJson a) \<in> set (files (snd (process_songbook e inp base initial_world))) \<longrightarrow>
      sorted (map title_key (alb_songs a)) \<and> alb_song_count a = length (alb_songs a))
   \<and> ((q, ArtistJson b) \<in> set (files (snd (process_songbook e inp base initial_world))) \<longrightarrow>
      sorted (map title_key (art_songs b)) \<and> art_song_count b = length (art_songs b))"
proof (intro conjI impI)
  assume "(p, AlbumJson a) \<in> set (files (snd (process_songbook e inp base initial_world)))"
  then obtain d where "(p, AlbumJson a) \<in> set (all_writes e d base)"
    by (rule run_files_cases)
  then obtain g where "alb_songs a = sort_key title_key g" "alb_song_count a = length (sort_key title_key g)"
    unfolding all_writes_album mem_album_files by (auto simp del: sort_key_simps length_sort)
  then show "sorted (map title_key (alb_songs a))" "alb_song_count a = length (alb_songs a)"
    by simp_all
next
  assume "(q, ArtistJson b) \<in> set (files (snd (process_songbook e inp base initial_world)))"
  then obtain d where "(q, ArtistJson b) \<in> set (all_writes e d base)"
    by (rule run_files_cases)
  then obtain g where "art_songs b = sort_key title_key g" "art_song_count b = length (sort_key title_key g)"
    unfolding all_writes_artist mem_artist_files by (auto simp del: sort_key_simps length_sort)
  then show "sorted (map title_key (art_songs b))" "art_song_count b = length (art_songs b)"
    by simp_all
qed

lemma small_run:
  "process_songbook (quiet_env small_songbook) ''in.json'' ''out'' initial_world =
    (None,
     \<lparr>dirs = [''out/songs'', ''out/albums'', ''out/artists''],
      files =
        [(''out/songs/B.json'', SongJson song_B),
         (''out/songs/A.json'', SongJson song_A),
         (''out/albums/Z.json'',
            AlbumJson \<lparr>alb_album_title = ''Z'', alb_artist = ''X'', alb_song_count = 2,
                        alb_songs = [song_A, song_B]\<rparr>),
         (''out/artists/X.json'',
            ArtistJson \<lparr>art_artist_name = ''X'', art_song_count = 2,
                         art_songs = [song_A, song_B]\<rparr>),
         (''out/metadata.json'', MetadataJson (JObj [(''v'', JNum 1)])),
         (''out/artist_profile.json'', SongJson profile_record),
         (''out/catalog.json'',
            CatalogJson
              \<lparr>cat_artists = [(''X'', [''A'', ''B''])],
               cat_albums = [(''Z'', \<lparr>entry_artist = ''X'', entry_songs = [''A'', ''B'']\<rparr>)],
               cat_songs = [''A'', ''B'']\<rparr>)],
      out =
        [''Loading songbook from: in.json'',
         ''Creating output directories...'',
         ''Directories created successfully.'',
         ''Creating individual files for 2 songs...'',
         ''Song files created.'',
         ''Grouping songs by album and creating album files...'',
         ''Album files created.'',
         ''Grouping songs by artist and creating artist files...'',
         ''Artist files created.'',
         ''Extracting profile and metadata...'',
         ''metadata.json created.'',
         ''artist_profile.json created.'',
         ''Creating master catalog file...'',
         ''catalog.json created successfully.'',
         CHR 0x0A # ''Processing complete!'',
         ''All files have been saved in the '' @ [CHR 0x27] @ ''out'' @ [CHR 0x27]
           @ '' directory.'']\<rparr>)"
  by (simp add: process_songbook_def quiet_env_def small_songbook_def song_B_def song_A_def
        profile_record_def create_directories_def makedirs_def create_song_files_def song_step_def
        write_song_def write_json_def create_album_files_def group_step_def dict_append_def
        album_step_def write_album_def title_key_def create_artist_files_def artist_step_def
        write_artist_def create_profile_and_metadata_files_def create_catalog_file_def
        build_catalog_def catalog_titles_Cons catalog_step_def catalog_add_def path_join_def
        sanitize_filename_def invalid_chars_def initial_world_def print_line_def Let_def
        str_nat.simps)

theorem album_and_artist_files_sorted_witness:
  "(''out/albums/Z.json'',
      AlbumJson \<lparr>alb_album_title = ''Z'', alb_artist = ''X'', alb_song_count = 2,
                  alb_songs = [song_A, song_B]\<rparr>)
     \<in> set (files (snd (process_songbook (quiet_env small_songbook) ''in.json'' ''out'' initial_world)))
   \<and> sorted (map title_key [song_A, song_B])
   \<and> (2::nat) = length [song_A, song_B]
   \<and> (''out/artists/X.json'',
      ArtistJson \<lparr>art_artist_name = ''X'', art_song_count = 2, art_songs = [song_A, song_B]\<rparr>)
     \<in> set (files (snd (process_songbook (quiet_env small_songbook) ''in.json'' ''out'' initial_world)))"
  using album_and_artist_files_sorted
    [of "''out/albums/Z.json''"
        "\<lparr>alb_album_title = ''Z'', alb_artist = ''X'', alb_song_count = 2,
          alb_songs = [song_A, song_B]\<rparr>"
        "quiet_env small_songbook" "''in.json''" "''out''"
        "''out/artists/X.json''"
        "\<lparr>art_artist_name = ''X'', art_song_count = 2, art_songs = [song_A, song_B]\<rparr>"]
  by (simp add: small_run)

lemma mixed_run_files:
  "files (snd (process_songbook (quiet_env mixed_songbook) ''in.json'' ''out'' initial_world)) =
     [(''out/songs/B.json'', SongJson song_B),
      (''out/songs/B.json'', SongJson song_B2),
      (''out/albums/Z.json'',
         AlbumJson \<lparr>alb_album_title = ''Z'', alb_artist = ''X'', alb_song_count = 2,
                     alb_songs = [untitled_song, song_B]\<rparr>),
      (''out/artists/X.json'',
         ArtistJson \<lparr>art_artist_name = ''X'', art_song_count = 2,
                      art_songs = [untitled_song, song_B]\<rparr>),
      (''out/artists/Y.json'',
         ArtistJson \<lparr>art_artist_name = ''Y'', art_song_count = 1, art_songs = [song_B2]\<rparr>),
      (''out/artist_profile.json'', SongJson profile_record),
      (''out/catalog.json'',
         CatalogJson
           \<lparr>cat_artists = [(''X'', [''B'']), (''Y'', [''B''])],
            cat_albums = [(''Z'', \<lparr>entry_artist = ''X'', entry_songs = [''B'']\<rparr>),
                          (''Uncategorized'', \<lparr>entry_artist = ''Y'', entry_songs = [''B'']\<rparr>)],
            cat_songs = [''B'', ''B'']\<rparr>)]"
  by (simp add: process_songbook_def quiet_env_def mixed_songbook_def song_B_def song_B2_def
        untitled_song_def
        profile_record_def create_directories_def makedirs_def create_song_files_def song_step_def
        write_song_def write_json_def create_album_files_def group_step_def dict_append_def
        album_step_def write_album_def title_key_def create_artist_files_def artist_step_def
        write_artist_def create_profile_and_metadata_files_def create_catalog_file_def
        build_catalog_def catalog_titles_Cons catalog_step_def catalog_add_def path_join_def
        sanitize_filename_def invalid_chars_def initial_world_def print_line_def Let_def)

lemma mixed_run_completes:
  "fst (process_songbook (quiet_env mixed_songbook) ''in.json'' ''out'' initial_world) = None"
  by (simp add: process_songbook_def quiet_env_def mixed_songbook_def song_B_def song_B2_def
        untitled_song_def
        profile_record_def create_directories_def makedirs_def create_song_files_def song_step_def
        write_song_def write_json_def create_album_files_def group_step_def dict_append_def
        album_step_def write_album_def title_key_def create_artist_files_def artist_step_def
        write_artist_def create_profile_and_metadata_files_def create_catalog_file_def
        path_join_def sanitize_filename_def invalid_chars_def initial_world_def print_line_def
        Let_def)

lemma doc_songs_mixed:
  "doc_songs mixed_songbook = Some [untitled_song, song_B, song_B2, profile_record]"
  by (simp add: mixed_songbook_def)

lemma read_quiet_env [simp]: "read_input (quiet_env d) ''in.json'' = Loaded d"
  by (simp add: quiet_env_def)

subsection \<open>The catalog of a run\<close>

lemma catalog_titles_songs_only:
  "catalog_titles (songs_only_of d) =
     filter (\<lambda>t. t \<noteq> ''Profile'')
       (List.map_filter title (case doc_songs d of Some l \<Rightarrow> l | None \<Rightarrow> []))"
  unfolding songs_only_of_def
  by (subst catalog_titles_filter) (simp_all add: catalog_titles_eq)

lemma final_file_last: "files w = fs @ [(p, c)] \<Longrightarrow> final_file w p = Some c"
  by (simp add: final_file_def)

lemma run_completed_catalog:
  assumes "read_input e inp = Loaded d"
    and "fst (process_songbook e inp base initial_world) = None"
  shows "final_file (snd (process_songbook e inp base initial_world)) (path_join base ''catalog.json'')
           = Some (CatalogJson (build_catalog (songs_only_of d)))"
  by (rule final_file_last) (simp add: run_files_completed [OF assms] all_writes_def)

text \<open>
  C5. The \<^verbatim>\<open>songs\<close> list of every \<^verbatim>\<open>catalog.json\<close> a run writes is the sorted
  list of the titles of the input's song records that have a title other than
  \<^verbatim>\<open>"Profile"\<close>; a title that occurs several times occurs as often in the list. A run
  that returns without an exception has written that file.
\<close>

theorem catalog_songs_sorted_titles:
  assumes "read_input e inp = Loaded d"
  shows "((p, CatalogJson c) \<in> set (files (snd (process_songbook e inp base initial_world))) \<longrightarrow>
            cat_songs c =
              sort (filter (\<lambda>t. t \<noteq> ''Profile'')
                      (List.map_filter title (case doc_songs d of Some l \<Rightarrow> l | None \<Rightarrow> []))))
       \<and> (fst (process_songbook e inp base initial_world) = None \<longrightarrow>
            (\<exists>c'. final_file (snd (process_songbook e inp base initial_world))
                     (path_join base ''catalog.json'') = Some (CatalogJson c')
                \<and> cat_songs c' =
                    sort (filter (\<lambda>t. t \<noteq> ''Profile'')
                            (List.map_filter title
                               (case doc_songs d of Some l \<Rightarrow> l | None \<Rightarrow> [])))))"
proof (intro conjI impI)
  assume "(p, CatalogJson c) \<in> set (files (snd (process_songbook e inp base initial_world)))"
  then have "(p, CatalogJson c) \<in> set (all_writes e d base)"
    using run_files_subset [OF assms] by blast
  then have "c = build_catalog (songs_only_of d)"
    by (simp add: all_writes_catalog)
  then show "cat_songs c =
              sort (filter (\<lambda>t. t \<noteq> ''Profile'')
                      (List.map_filter title (case doc_songs d of Some l \<Rightarrow> l | None \<Rightarrow> [])))"
    by (simp add: cat_songs_build_catalog catalog_titles_songs_only)
next
  assume "fst (process_songbook e inp base initial_world) = None"
  then have "final_file (snd (process_songbook e inp base initial_world))
               (path_join base ''catalog.json'')
             = Some (CatalogJson (build_catalog (songs_only_of d)))"
    by (rule run_completed_catalog [OF assms])
  moreover have "cat_songs (build_catalog (songs_only_of d)) =
                   sort (filter (\<lambda>t. t \<noteq> ''Profile'')
                           (List.map_filter title
                              (case doc_songs d of Some l \<Rightarrow> l | None \<Rightarrow> [])))"
    by (simp add: cat_songs_build_catalog catalog_titles_songs_only)
  ultimately show "\<exists>c'. final_file (snd (process_songbook e inp base initial_world))
                     (path_join base ''catalog.json'') = Some (CatalogJson c')
                \<and> cat_songs c' =
                    sort (filter (\<lambda>t. t \<noteq> ''Profile'')
                            (List.map_filter title
                               (case doc_songs d of Some l \<Rightarrow> l | None \<Rightarrow> [])))"
    by blast
qed

theorem catalog_songs_sorted_titles_witness:
  "read_input (quiet_env mixed_songbook) ''in.json'' = Loaded mixed_songbook
   \<and> (''out/catalog.json'',
        CatalogJson
           \<lparr>cat_artists = [(''X'', [''B'']), (''Y'', [''B''])],
            cat_albums = [(''Z'', \<lparr>entry_artist = ''X'', entry_songs = [''B'']\<rparr>),
                          (''Uncategorized'', \<lparr>entry_artist = ''Y'', entry_songs = [''B'']\<rparr>)],
            cat_songs = [''B'', ''B'']\<rparr>)
       \<in> set (files (snd (process_songbook (quiet_env mixed_songbook) ''in.json'' ''out'' initial_world)))
   \<and> [''B'', ''B''] =
        sort (filter (\<lambda>t. t \<noteq> ''Profile'')
                (List.map_filter title [untitled_song, song_B, song_B2, profile_record]))
   \<and> fst (process_songbook (quiet_env mixed_songbook) ''in.json'' ''out'' initial_world) = None
   \<and> (\<exists>c'. final_file (snd (process_songbook (quiet_env mixed_songbook) ''in.json'' ''out''
                              initial_world))
              (path_join ''out'' ''catalog.json'') = Some (CatalogJson c')
          \<and> cat_songs c' =
              sort (filter (\<lambda>t. t \<noteq> ''Profile'')
                      (List.map_filter title [untitled_song, song_B, song_B2, profile_record])))"
  using catalog_songs_sorted_titles
    [of "quiet_env mixed_songbook" "''in.json''" mixed_songbook "''out/catalog.json''"
        "\<lparr>cat_artists = [(''X'', [''B'']), (''Y'', [''B''])],
            cat_albums = [(''Z'', \<lparr>entry_artist = ''X'', entry_songs = [''B'']\<rparr>),
                          (''Uncategorized'', \<lparr>entry_artist = ''Y'', entry_songs = [''B'']\<rparr>)],
            cat_songs = [''B'', ''B'']\<rparr>" "''out''"]
    mixed_run_completes
  by (simp add: mixed_run_files doc_songs_mixed)

subsection \<open>The artist of an album file\<close>

lemma album_file_artist:
  assumes "(p, AlbumJson a) \<in> set (files (create_album_files e songs_data base initial_world))"
  shows "\<exists>first. find (\<lambda>s. album s = Some (alb_album_title a)) songs_data = Some first
           \<and> alb_artist a = (case artist first of Some x \<Rightarrow> x | None \<Rightarrow> ''Various Artists'')"
proof -
  from assms obtain k first rest where
    f: "filter (\<lambda>s. album s = Some k) songs_data = first # rest"
    and a: "a = \<lparr>alb_album_title = k,
                 alb_artist = (case artist first of Some a \<Rightarrow> a | None \<Rightarrow> ''Various Artists''),
                 alb_song_count = length (sort_key title_key (first # rest)),
                 alb_songs = sort_key title_key (first # rest)\<rparr>"
    unfolding mem_album_files by blast
  from f have "find (\<lambda>s. album s = Some k) songs_data = Some first"
    by (rule filter_Cons_find)
  then show ?thesis
    unfolding a by simp
qed

text \<open>
  C6. The \<^verbatim>\<open>artist\<close> of an album file is the \<^verbatim>\<open>artist\<close> of the first song, in
  the order of the list given to \<^verbatim>\<open>create_album_files\<close>, whose \<^verbatim>\<open>album\<close> is
  that album title, and \<^verbatim>\<open>"Various Artists"\<close> when that song has no artist. In a run
  the list is the input's \<^verbatim>\<open>songs\<close> without the records titled \<^verbatim>\<open>"Profile"\<close>.
\<close>

theorem album_artist_from_first_song:
  "((p, AlbumJson a) \<in> set (files (create_album_files e songs_data base initial_world)) \<longrightarrow>
      (\<exists>first. find (\<lambda>s. album s = Some (alb_album_title a)) songs_data = Some first
          \<and> alb_artist a = (case artist first of Some x \<Rightarrow> x | None \<Rightarrow> ''Various Artists'')))
   \<and> (read_input e inp = Loaded d
        \<and> (q, AlbumJson b) \<in> set (files (snd (process_songbook e inp base initial_world))) \<longrightarrow>
      (\<exists>first. find (\<lambda>s. album s = Some (alb_album_title b))
                  (filter (\<lambda>song. title song \<noteq> Some ''Profile'')
                     (case doc_songs d of Some l \<Rightarrow> l | None \<Rightarrow> [])) = Some first
          \<and> alb_artist b = (case artist first of Some x \<Rightarrow> x | None \<Rightarrow> ''Various Artists'')))"
proof (intro conjI impI)
  assume "(p, AlbumJson a) \<in> set (files (create_album_files e songs_data base initial_world))"
  then show "\<exists>first. find (\<lambda>s. album s = Some (alb_album_title a)) songs_data = Some first
          \<and> alb_artist a = (case artist first of Some x \<Rightarrow> x | None \<Rightarrow> ''Various Artists'')"
    by (rule album_file_artist)
next
  assume h: "read_input e inp = Loaded d
        \<and> (q, AlbumJson b) \<in> set (files (snd (process_songbook e inp base initial_world)))"
  then have "(q, AlbumJson b) \<in> set (all_writes e d base)"
    using run_files_subset [of e inp d base] by blast
  then have "(q, AlbumJson b) \<in> set (files (create_album_files e (songs_only_of d) base initial_world))"
    by (simp add: all_writes_album)
  then show "\<exists>first. find (\<lambda>s. album s = Some (alb_album_title b))
                  (filter (\<lambda>song. title song \<noteq> Some ''Profile'')
                     (case doc_songs d of Some l \<Rightarrow> l | None \<Rightarrow> [])) = Some first
          \<and> alb_artist b = (case artist first of Some x \<Rightarrow> x | None \<Rightarrow> ''Various Artists'')"
    unfolding songs_only_of_def [symmetric] by (rule album_file_artist)
qed

lemma mixed_album_files:
  "files (create_album_files (quiet_env mixed_songbook) [untitled_song, song_B, song_B2] ''out''
            initial_world) =
     [(''out/albums/Z.json'',
         AlbumJson \<lparr>alb_album_title = ''Z'', alb_artist = ''X'', alb_song_count = 2,
                     alb_songs = [untitled_song, song_B]\<rparr>)]"
  by (simp add: quiet_env_def song_B_def song_B2_def untitled_song_def
        write_json_def create_album_files_def group_step_def dict_append_def
        album_step_def write_album_def title_key_def path_join_def
        sanitize_filename_def invalid_chars_def initial_world_def print_line_def Let_def)

theorem album_artist_from_first_song_witness:
  "(''out/albums/Z.json'',
      AlbumJson \<lparr>alb_album_title = ''Z'', alb_artist = ''X'', alb_song_count = 2,
                  alb_songs = [untitled_song, song_B]\<rparr>)
     \<in> set (files (create_album_files (quiet_env mixed_songbook) [untitled_song, song_B, song_B2]
                     ''out'' initial_world))
   \<and> (\<exists>first. find (\<lambda>s. album s = Some ''Z'') [untitled_song, song_B, song_B2] = Some first
         \<and> ''X'' = (case artist first of Some x \<Rightarrow> x | None \<Rightarrow> ''Various Artists''))
   \<and> read_input (quiet_env mixed_songbook) ''in.json'' = Loaded mixed_songbook
   \<and> (''out/albums/Z.json'',
      AlbumJson \<lparr>alb_album_title = ''Z'', alb_artist = ''X'', alb_song_count = 2,
                  alb_songs = [untitled_song, song_B]\<rparr>)
     \<in> set (files (snd (process_songbook (quiet_env mixed_songbook) ''in.json'' ''out''
                           initial_world)))
   \<and> (\<exists>first. find (\<lambda>s. album s = Some ''Z'')
                  (filter (\<lambda>song. title song \<noteq> Some ''Profile'')
                     [untitled_song, song_B, song_B2, profile_record]) = Some first
         \<and> ''X'' = (case artist first of Some x \<Rightarrow> x | None \<Rightarrow> ''Various Artists''))"
  using album_artist_from_first_song
    [of "''out/albums/Z.json''"
        "\<lparr>alb_album_title = ''Z'', alb_artist = ''X'', alb_song_count = 2,
          alb_songs = [untitled_song, song_B]\<rparr>"
        "quiet_env mixed_songbook" "[untitled_song, song_B, song_B2]" "''out''"
        "''in.json''" mixed_songbook
        "''out/albums/Z.json''"
        "\<lparr>alb_album_title = ''Z'', alb_artist = ''X'', alb_song_count = 2,
          alb_songs = [untitled_song, song_B]\<rparr>"]
  by (simp add: mixed_run_files mixed_album_files doc_songs_mixed)

subsection \<open>Records without a title\<close>

lemma build_catalog_titled:
  "build_catalog (filter (\<lambda>s. title s \<noteq> None) songs) = build_catalog songs"
  by (rule build_catalog_filter) simp

lemma build_catalog_songs_only:
  "build_catalog (songs_only_of d) =
     build_catalog (case doc_songs d of Some l \<Rightarrow> l | None \<Rightarrow> [])"
  unfolding songs_only_of_def by (rule build_catalog_filter) simp

lemma find_Some_mem: "find P xs = Some x \<Longrightarrow> P x \<and> x \<in> set xs"
  by (induction xs) (auto split: if_splits)

lemma profile_and_metadata_writes_song:
  "(p, SongJson s) \<in> set (profile_and_metadata_writes d base) \<Longrightarrow>
   title s = Some ''Profile'' \<and> p = path_join base ''artist_profile.json''
   \<and> s \<in> set (case doc_songs d of Some l \<Rightarrow> l | None \<Rightarrow> [])"
proof -
  assume "(p, SongJson s) \<in> set (profile_and_metadata_writes d base)"
  then have f: "find (\<lambda>item. title item = Some ''Profile'')
             (case doc_songs d of Some l \<Rightarrow> l | None \<Rightarrow> []) = Some s"
    and p: "p = path_join base ''artist_profile.json''"
    by (auto dest: profile_and_metadata_writes_kind)
  from f have "title s = Some ''Profile''" "s \<in> set (case doc_songs d of Some l \<Rightarrow> l | None \<Rightarrow> [])"
    using find_Some_mem [OF f] by simp_all
  with p show ?thesis by simp
qed

lemma sorted_group_member:
  "s \<in> set (sort_key title_key (filter (\<lambda>s. key s = Some k) songs)) \<longleftrightarrow>
     s \<in> set songs \<and> key s = Some k"
  by simp

text \<open>In a list sorted on a key, what stands before a member has a key that is not larger.\<close>

lemma sorted_before_first:
  assumes "sorted (map f xs)" "u \<in> set xs" "v \<in> set (takeWhile (\<lambda>v. v \<noteq> u) xs)"
  shows "f v \<le> f u"
proof -
  have "u \<notin> set (takeWhile (\<lambda>v. v \<noteq> u) xs)"
    by (auto dest: set_takeWhileD)
  moreover have "set xs = set (takeWhile (\<lambda>v. v \<noteq> u) xs) \<union> set (dropWhile (\<lambda>v. v \<noteq> u) xs)"
    by (metis set_append takeWhile_dropWhile_id)
  ultimately have u: "u \<in> set (dropWhile (\<lambda>v. v \<noteq> u) xs)"
    using assms(2) by blast
  have "sorted (map f (takeWhile (\<lambda>v. v \<noteq> u) xs) @ map f (dropWhile (\<lambda>v. v \<noteq> u) xs))"
    using assms(1) by (simp flip: map_append)
  then show ?thesis
    using u assms(3) by (auto simp: sorted_append)
qed

lemma untitled_sorts_first:
  assumes "title u = None" "u \<in> set xs"
  shows "title_key u = []"
    and "\<forall>v \<in> set (takeWhile (\<lambda>v. v \<noteq> u) (sort_key title_key xs)). title_key v = []"
proof -
  show k: "title_key u = []"
    using assms(1) by (simp add: title_key_def)
  show "\<forall>v \<in> set (takeWhile (\<lambda>v. v \<noteq> u) (sort_key title_key xs)). title_key v = []"
  proof
    fix v
    assume "v \<in> set (takeWhile (\<lambda>v. v \<noteq> u) (sort_key title_key xs))"
    then have "title_key v \<le> title_key u"
      using assms(2) by (intro sorted_before_first [where xs = "sort_key title_key xs"]) simp_all
    then show "title_key v = []"
      unfolding k by simp
  qed
qed

text \<open>
  C2, as the code has it. A record without a title is written to no per-song file and
  leaves no trace in \<^verbatim>\<open>catalog.json\<close>: the catalog is the one built from the records
  that have a title. It is not kept out of the member lists: when it has a non-empty
  album (artist), it is in the \<^verbatim>\<open>songs\<close> list of every file written for that album
  (artist). There it sorts under the empty title: its sort key is the empty string, the
  list ascends on the sort key, and every member listed before it has the empty sort key
  too, so it stands before every member with a non-empty title.
\<close>

theorem untitled_records:
  assumes "read_input e inp = Loaded d"
  shows "((p, SongJson s) \<in> set (files (snd (process_songbook e inp base initial_world))) \<longrightarrow>
            title s \<noteq> None)
       \<and> ((p', CatalogJson c) \<in> set (files (snd (process_songbook e inp base initial_world))) \<longrightarrow>
            c = build_catalog (filter (\<lambda>s. title s \<noteq> None)
                                 (case doc_songs d of Some l \<Rightarrow> l | None \<Rightarrow> [])))
       \<and> (u \<in> set (case doc_songs d of Some l \<Rightarrow> l | None \<Rightarrow> []) \<and> title u = None
             \<and> album u = Some (alb_album_title a) \<and> alb_album_title a \<noteq> []
             \<and> (q, AlbumJson a) \<in> set (files (snd (process_songbook e inp base initial_world))) \<longrightarrow>
            u \<in> set (alb_songs a)
            \<and> title_key u = []
            \<and> sorted (map title_key (alb_songs a))
            \<and> (\<forall>v \<in> set (takeWhile (\<lambda>v. v \<noteq> u) (alb_songs a)). title_key v = []))
       \<and> (u \<in> set (case doc_songs d of Some l \<Rightarrow> l | None \<Rightarrow> []) \<and> title u = None
             \<and> artist u = Some (art_artist_name b) \<and> art_artist_name b \<noteq> []
             \<and> (q', ArtistJson b) \<in> set (files (snd (process_songbook e inp base initial_world))) \<longrightarrow>
            u \<in> set (art_songs b)
            \<and> title_key u = []
            \<and> sorted (map title_key (art_songs b))
            \<and> (\<forall>v \<in> set (takeWhile (\<lambda>v. v \<noteq> u) (art_songs b)). title_key v = []))"
proof (intro conjI impI)
  assume "(p, SongJson s) \<in> set (files (snd (process_songbook e inp base initial_world)))"
  then have "(p, SongJson s) \<in> set (all_writes e d base)"
    using run_files_subset [OF assms] by blast
  then show "title s \<noteq> None"
    unfolding all_writes_song mem_song_files
    by (auto dest: profile_and_metadata_writes_song)
next
  assume "(p', CatalogJson c) \<in> set (files (snd (process_songbook e inp base initial_world)))"
  then have "(p', CatalogJson c) \<in> set (all_writes e d base)"
    using run_files_subset [OF assms] by blast
  then have "c = build_catalog (songs_only_of d)"
    by (simp add: all_writes_catalog)
  then show "c = build_catalog (filter (\<lambda>s. title s \<noteq> None)
                                 (case doc_songs d of Some l \<Rightarrow> l | None \<Rightarrow> []))"
    by (simp only: build_catalog_songs_only build_catalog_titled)
next
  assume h: "u \<in> set (case doc_songs d of Some l \<Rightarrow> l | None \<Rightarrow> []) \<and> title u = None
             \<and> album u = Some (alb_album_title a) \<and> alb_album_title a \<noteq> []
             \<and> (q, AlbumJson a) \<in> set (files (snd (process_songbook e inp base initial_world)))"
  then have "(q, AlbumJson a) \<in> set (all_writes e d base)"
    using run_files_subset [OF assms] by blast
  then obtain k first rest where
    f: "filter (\<lambda>s. album s = Some k) (songs_only_of d) = first # rest"
    and a: "a = \<lparr>alb_album_title = k,
                 alb_artist = (case artist first of Some a \<Rightarrow> a | None \<Rightarrow> ''Various Artists''),
                 alb_song_count = length (sort_key title_key (first # rest)),
                 alb_songs = sort_key title_key (first # rest)\<rparr>"
    unfolding all_writes_album mem_album_files by blast
  have k: "alb_album_title a = k" unfolding a by simp
  have songs: "alb_songs a = sort_key title_key (filter (\<lambda>s. album s = Some k) (songs_only_of d))"
    unfolding a f by simp
  have "u \<in> set (songs_only_of d)"
    using h by (simp add: songs_only_of_def)
  then have u: "u \<in> set (filter (\<lambda>s. album s = Some k) (songs_only_of d))"
    using h k by simp
  have t: "title u = None"
    using h by simp
  show "u \<in> set (alb_songs a)"
    unfolding songs using u by simp
  show "title_key u = []"
    using t u by (rule untitled_sorts_first(1))
  show "sorted (map title_key (alb_songs a))"
    unfolding songs by simp
  show "\<forall>v \<in> set (takeWhile (\<lambda>v. v \<noteq> u) (alb_songs a)). title_key v = []"
    unfolding songs using t u by (rule untitled_sorts_first(2))
next
  assume h: "u \<in> set (case doc_songs d of Some l \<Rightarrow> l | None \<Rightarrow> []) \<and> title u = None
             \<and> artist u = Some (art_artist_name b) \<and> art_artist_name b \<noteq> []
             \<and> (q', ArtistJson b) \<in> set (files (snd (process_songbook e inp base initial_world)))"
  then have "(q', ArtistJson b) \<in> set (all_writes e d base)"
    using run_files_subset [OF assms] by blast
  then obtain k where
    b: "b = \<lparr>art_artist_name = k,
             art_song_count = length (sort_key title_key (filter (\<lambda>s. artist s = Some k) (songs_only_of d))),
             art_songs = sort_key title_key (filter (\<lambda>s. artist s = Some k) (songs_only_of d))\<rparr>"
    unfolding all_writes_artist mem_artist_files by blast
  have k: "art_artist_name b = k" by (subst b) simp
  have songs: "art_songs b = sort_key title_key (filter (\<lambda>s. artist s = Some k) (songs_only_of d))"
    by (subst b) simp
  have "u \<in> set (songs_only_of d)"
    using h by (simp add: songs_only_of_def)
  then have u: "u \<in> set (filter (\<lambda>s. artist s = Some k) (songs_only_of d))"
    using h k by simp
  have t: "title u = None"
    using h by simp
  show "u \<in> set (art_songs b)"
    unfolding songs using u by simp
  show "title_key u = []"
    using t u by (rule untitled_sorts_first(1))
  show "sorted (map title_key (art_songs b))"
    unfolding songs by simp
  show "\<forall>v \<in> set (takeWhile (\<lambda>v. v \<noteq> u) (art_songs b)). title_key v = []"
    unfolding songs using t u by (rule untitled_sorts_first(2))
qed

theorem untitled_records_witness:
  "read_input (quiet_env mixed_songbook) ''in.json'' = Loaded mixed_songbook
   \<and> (''out/songs/B.json'', SongJson song_B)
       \<in> set (files (snd (process_songbook (quiet_env mixed_songbook) ''in.json'' ''out'' initial_world)))
   \<and> title song_B \<noteq> None
   \<and> (''out/catalog.json'',
        CatalogJson
           \<lparr>cat_artists = [(''X'', [''B'']), (''Y'', [''B''])],
            cat_albums = [(''Z'', \<lparr>entry_artist = ''X'', entry_songs = [''B'']\<rparr>),
                          (''Uncategorized'', \<lparr>entry_artist = ''Y'', entry_songs = [''B'']\<rparr>)],
            cat_songs = [''B'', ''B'']\<rparr>)
       \<in> set (files (snd (process_songbook (quiet_env mixed_songbook) ''in.json'' ''out'' initial_world)))
   \<and> \<lparr>cat_artists = [(''X'', [''B'']), (''Y'', [''B''])],
            cat_albums = [(''Z'', \<lparr>entry_artist = ''X'', entry_songs = [''B'']\<rparr>),
                          (''Uncategorized'', \<lparr>entry_artist = ''Y'', entry_songs = [''B'']\<rparr>)],
            cat_songs = [''B'', ''B'']\<rparr>
       = build_catalog (filter (\<lambda>s. title s \<noteq> None)
                          [untitled_song, song_B, song_B2, profile_record])
   \<and> untitled_song \<in> set [untitled_song, song_B, song_B2, profile_record]
   \<and> title untitled_song = None
   \<and> album untitled_song = Some ''Z''
   \<and> artist untitled_song = Some ''X''
   \<and> (''out/albums/Z.json'',
         AlbumJson \<lparr>alb_album_title = ''Z'', alb_artist = ''X'', alb_song_count = 2,
                     alb_songs = [untitled_song, song_B]\<rparr>)
       \<in> set (files (snd (process_songbook (quiet_env mixed_songbook) ''in.json'' ''out'' initial_world)))
   \<and> (''out/artists/X.json'',
         ArtistJson \<lparr>art_artist_name = ''X'', art_song_count = 2,
                      art_songs = [untitled_song, song_B]\<rparr>)
       \<in> set (files (snd (process_songbook (quiet_env mixed_songbook) ''in.json'' ''out'' initial_world)))
   \<and> untitled_song \<in> set [untitled_song, song_B]
   \<and> title_key untitled_song = []
   \<and> sorted (map title_key [untitled_song, song_B])
   \<and> takeWhile (\<lambda>v. v \<noteq> untitled_song) [untitled_song, song_B] = []"
proof -
  let ?run = "process_songbook (quiet_env mixed_songbook) ''in.json'' ''out'' initial_world"
  let ?catalog = "\<lparr>cat_artists = [(''X'', [''B'']), (''Y'', [''B''])],
            cat_albums = [(''Z'', \<lparr>entry_artist = ''X'', entry_songs = [''B'']\<rparr>),
                          (''Uncategorized'', \<lparr>entry_artist = ''Y'', entry_songs = [''B'']\<rparr>)],
            cat_songs = [''B'', ''B'']\<rparr>"
  let ?album = "\<lparr>alb_album_title = ''Z'', alb_artist = ''X'', alb_song_count = 2,
                  alb_songs = [untitled_song, song_B]\<rparr>"
  let ?artist = "\<lparr>art_artist_name = ''X'', art_song_count = 2,
                   art_songs = [untitled_song, song_B]\<rparr>"
  have loaded: "read_input (quiet_env mixed_songbook) ''in.json'' = Loaded mixed_songbook"
    by simp
  have m1: "(''out/songs/B.json'', SongJson song_B) \<in> set (files (snd ?run))"
    and m2: "(''out/catalog.json'', CatalogJson ?catalog) \<in> set (files (snd ?run))"
    and m3: "(''out/albums/Z.json'', AlbumJson ?album) \<in> set (files (snd ?run))"
    and m4: "(''out/artists/X.json'', ArtistJson ?artist) \<in> set (files (snd ?run))"
    by (simp_all add: mixed_run_files)
  have u: "untitled_song \<in> set [untitled_song, song_B, song_B2, profile_record]"
    and ut: "title untitled_song = None"
    and ua: "album untitled_song = Some ''Z''"
    and ur: "artist untitled_song = Some ''X''"
    and first: "takeWhile (\<lambda>v. v \<noteq> untitled_song) [untitled_song, song_B] = []"
    by (simp_all add: untitled_song_def)
  note t = untitled_records
    [OF loaded, where base = "''out''" and p = "''out/songs/B.json''" and s = song_B
       and p' = "''out/catalog.json''" and c = ?catalog and u = untitled_song
       and q = "''out/albums/Z.json''" and a = ?album
       and q' = "''out/artists/X.json''" and b = ?artist]
  from t have c1: "title song_B \<noteq> None"
    using m1 by (elim conjE) simp
  from t have c2: "?catalog = build_catalog (filter (\<lambda>s. title s \<noteq> None)
                          [untitled_song, song_B, song_B2, profile_record])"
    using m2 by (elim conjE) (simp add: doc_songs_mixed)
  from t have c3: "untitled_song \<in> set [untitled_song, song_B]
      \<and> title_key untitled_song = []
      \<and> sorted (map title_key [untitled_song, song_B])"
    using u ut ua m3 by (elim conjE) (simp add: doc_songs_mixed)
  then have c3a: "untitled_song \<in> set [untitled_song, song_B]"
    and c3b: "title_key untitled_song = []"
    and c3c: "sorted (map title_key [untitled_song, song_B])"
    by simp_all
  show ?thesis
    using loaded m1 c1 m2 c2 u ut ua ur m3 m4 c3a c3b c3c first by (intro conjI)
qed

text \<open>
  C2 as stated fails: in the second songbook the record without a title is a member of
  the \<^verbatim>\<open>songs\<close> lists of the file of its album and of the file of its artist.
\<close>

theorem untitled_record_listed_counterexample:
  "title untitled_song = None
   \<and> doc_songs mixed_songbook = Some [untitled_song, song_B, song_B2, profile_record]
   \<and> (''out/albums/Z.json'',
         AlbumJson \<lparr>alb_album_title = ''Z'', alb_artist = ''X'', alb_song_count = 2,
                     alb_songs = [untitled_song, song_B]\<rparr>)
       \<in> set (files (snd (process_songbook (quiet_env mixed_songbook) ''in.json'' ''out'' initial_world)))
   \<and> (''out/artists/X.json'',
         ArtistJson \<lparr>art_artist_name = ''X'', art_song_count = 2,
                      art_songs = [untitled_song, song_B]\<rparr>)
       \<in> set (files (snd (process_songbook (quiet_env mixed_songbook) ''in.json'' ''out'' initial_world)))"
  by (simp add: mixed_run_files doc_songs_mixed) (simp add: untitled_song_def)

subsection \<open>Paths\<close>

lemma path_join_relative:
  "take 1 x \<noteq> ''/'' \<Longrightarrow>
   path_join b x = (if b = [] \<or> last b = CHR ''/'' then b else b @ ''/'') @ x"
  by (simp add: path_join_def)

lemma sanitized_json_relative: "take 1 (sanitize_filename n @ ''.json'') \<noteq> ''/''"
proof (cases "sanitize_filename n")
  case Nil
  then show ?thesis by simp
next
  case (Cons c cs)
  then have "c \<in> set (sanitize_filename n)" by simp
  then have "c \<notin> set invalid_chars" by (simp add: sanitize_filename_clean)
  then have "c \<noteq> CHR ''/''" by (auto simp: invalid_chars_def)
  then show ?thesis using Cons by simp
qed

lemma profile_path_not_in_songs:
  "path_join base ''artist_profile.json'' \<noteq>
     path_join (path_join base ''songs'') (sanitize_filename n @ ''.json'')"
  by (simp add: path_join_relative [OF sanitized_json_relative] path_join_relative)

lemma profile_path_not_in_albums:
  "path_join base ''artist_profile.json'' \<noteq>
     path_join (path_join base ''albums'') (sanitize_filename n @ ''.json'')"
  by (simp add: path_join_relative [OF sanitized_json_relative] path_join_relative)

lemma profile_path_not_in_artists:
  "path_join base ''artist_profile.json'' \<noteq>
     path_join (path_join base ''artists'') (sanitize_filename n @ ''.json'')"
  by (simp add: path_join_relative [OF sanitized_json_relative] path_join_relative)

lemma catalog_path_not_profile_path:
  "path_join base ''catalog.json'' \<noteq> path_join base ''artist_profile.json''"
  by (simp add: path_join_relative)

lemma catalog_path_not_metadata_path:
  "path_join base ''catalog.json'' \<noteq> path_join base ''metadata.json''"
  by (simp add: path_join_relative)

subsection \<open>The profile record\<close>

lemma doc_songs_small: "doc_songs small_songbook = Some [song_B, song_A, profile_record]"
  by (simp add: small_songbook_def)

lemma songs_only_no_profile: "x \<in> set (songs_only_of d) \<Longrightarrow> title x \<noteq> Some ''Profile''"
  by (simp add: songs_only_of_def)

lemma profile_not_in_catalog:
  "''Profile'' \<notin> set (cat_songs (build_catalog songs))"
  "''Profile'' \<notin> set (listed_titles (build_catalog songs))"
  using listed_titles_build_catalog [of songs]
  by (auto simp: cat_songs_build_catalog catalog_titles_eq)

lemma final_file_profile:
  assumes "files w = fs @ [(path_join base ''artist_profile.json'', x),
                            (path_join base ''catalog.json'', c)]"
  shows "final_file w (path_join base ''artist_profile.json'') = Some x"
  using catalog_path_not_profile_path [of base]
  by (simp add: final_file_def assms)

lemma run_completed_profile:
  assumes l: "read_input e inp = Loaded d"
    and c: "fst (process_songbook e inp base initial_world) = None"
    and r: "filter (\<lambda>s. title s = Some ''Profile'')
              (case doc_songs d of Some l \<Rightarrow> l | None \<Rightarrow> []) = [r]"
  shows "final_file (snd (process_songbook e inp base initial_world))
           (path_join base ''artist_profile.json'') = Some (SongJson r)"
proof -
  have f: "find (\<lambda>item. title item = Some ''Profile'')
             (case doc_songs d of Some l \<Rightarrow> l | None \<Rightarrow> []) = Some r"
    using r by (rule filter_Cons_find)
  have "files (snd (process_songbook e inp base initial_world)) =
          (files (create_song_files e (songs_only_of d) base initial_world)
           @ files (create_album_files e (songs_only_of d) base initial_world)
           @ files (create_artist_files e (songs_only_of d) base initial_world)
           @ (case doc_metadata d of
                Some m \<Rightarrow> [(path_join base ''metadata.json'', MetadataJson m)]
              | None \<Rightarrow> []))
          @ [(path_join base ''artist_profile.json'', SongJson r),
             (path_join base ''catalog.json'', CatalogJson (build_catalog (songs_only_of d)))]"
    by (simp add: run_files_completed [OF l c] all_writes_def profile_and_metadata_writes_def f)
  then show ?thesis by (rule final_file_profile)
qed

text \<open>
  C1. In a run on a loaded document, a record titled \<^verbatim>\<open>"Profile"\<close> is written only
  to \<^verbatim>\<open>artist_profile.json\<close>, which is no path of a file under \<^verbatim>\<open>songs/\<close>,
  \<^verbatim>\<open>albums/\<close> or \<^verbatim>\<open>artists/\<close>; no member list of an album or artist file holds
  such a record; the catalog is the one built from the input without these records, and
  the title \<^verbatim>\<open>"Profile"\<close> is in none of its lists. When the input holds exactly one
  such record and the run returns without an exception, \<^verbatim>\<open>artist_profile.json\<close>
  holds that record, unchanged.
\<close>

theorem profile_record_kept_apart:
  assumes "read_input e inp = Loaded d"
  shows "((p, SongJson s) \<in> set (files (snd (process_songbook e inp base initial_world)))
            \<and> title s = Some ''Profile'' \<longrightarrow> p = path_join base ''artist_profile.json'')
       \<and> path_join base ''artist_profile.json'' \<noteq>
            path_join (path_join base ''songs'') (sanitize_filename n @ ''.json'')
       \<and> path_join base ''artist_profile.json'' \<noteq>
            path_join (path_join base ''albums'') (sanitize_filename n @ ''.json'')
       \<and> path_join base ''artist_profile.json'' \<noteq>
            path_join (path_join base ''artists'') (sanitize_filename n @ ''.json'')
       \<and> ((q, AlbumJson a) \<in> set (files (snd (process_songbook e inp base initial_world)))
            \<and> x \<in> set (alb_songs a) \<longrightarrow> title x \<noteq> Some ''Profile'')
       \<and> ((q', ArtistJson b) \<in> set (files (snd (process_songbook e inp base initial_world)))
            \<and> y \<in> set (art_songs b) \<longrightarrow> title y \<noteq> Some ''Profile'')
       \<and> ((p', CatalogJson c) \<in> set (files (snd (process_songbook e inp base initial_world))) \<longrightarrow>
            c = build_catalog (filter (\<lambda>s. title s \<noteq> Some ''Profile'')
                                 (case doc_songs d of Some l \<Rightarrow> l | None \<Rightarrow> []))
            \<and> ''Profile'' \<notin> set (cat_songs c) \<and> ''Profile'' \<notin> set (listed_titles c))
       \<and> (filter (\<lambda>s. title s = Some ''Profile'')
             (case doc_songs d of Some l \<Rightarrow> l | None \<Rightarrow> []) = [r]
            \<and> fst (process_songbook e inp base initial_world) = None \<longrightarrow>
            final_file (snd (process_songbook e inp base initial_world))
              (path_join base ''artist_profile.json'') = Some (SongJson r))"
proof -
  note sub = run_files_subset [OF assms, of base]
  have c1: "(p, SongJson s) \<in> set (files (snd (process_songbook e inp base initial_world)))
            \<and> title s = Some ''Profile'' \<longrightarrow> p = path_join base ''artist_profile.json''"
  proof
    assume that: "(p, SongJson s) \<in> set (files (snd (process_songbook e inp base initial_world)))
            \<and> title s = Some ''Profile''"
    with sub have "(p, SongJson s) \<in> set (all_writes e d base)" by blast
    then show "p = path_join base ''artist_profile.json''"
      unfolding all_writes_song mem_song_files
      using that by (auto dest: profile_and_metadata_writes_song songs_only_no_profile)
  qed
  have c5: "(q, AlbumJson a) \<in> set (files (snd (process_songbook e inp base initial_world)))
            \<and> x \<in> set (alb_songs a) \<longrightarrow> title x \<noteq> Some ''Profile''"
  proof
    assume that: "(q, AlbumJson a) \<in> set (files (snd (process_songbook e inp base initial_world)))
            \<and> x \<in> set (alb_songs a)"
    with sub have "(q, AlbumJson a) \<in> set (all_writes e d base)" by blast
    then obtain k first rest where
      f: "filter (\<lambda>s. album s = Some k) (songs_only_of d) = first # rest"
      and a: "alb_songs a = sort_key title_key (first # rest)"
      unfolding all_writes_album mem_album_files by force
    have "x \<in> set (sort_key title_key (first # rest))"
      using that a by simp
    then have "x \<in> set (filter (\<lambda>s. album s = Some k) (songs_only_of d))"
      unfolding f set_sort .
    then have "x \<in> set (songs_only_of d)" by simp
    then show "title x \<noteq> Some ''Profile''" by (rule songs_only_no_profile)
  qed
  have c6: "(q', ArtistJson b) \<in> set (files (snd (process_songbook e inp base initial_world)))
            \<and> y \<in> set (art_songs b) \<longrightarrow> title y \<noteq> Some ''Profile''"
  proof
    assume that: "(q', ArtistJson b) \<in> set (files (snd (process_songbook e inp base initial_world)))
            \<and> y \<in> set (art_songs b)"
    with sub have "(q', ArtistJson b) \<in> set (all_writes e d base)" by blast
    then obtain k where
      "art_songs b = sort_key title_key (filter (\<lambda>s. artist s = Some k) (songs_only_of d))"
      unfolding all_writes_artist mem_artist_files by force
    then have "y \<in> set (songs_only_of d)"
      using that by simp
    then show "title y \<noteq> Some ''Profile''" by (rule songs_only_no_profile)
  qed
  have c7: "(p', CatalogJson c) \<in> set (files (snd (process_songbook e inp base initial_world))) \<longrightarrow>
            c = build_catalog (filter (\<lambda>s. title s \<noteq> Some ''Profile'')
                                 (case doc_songs d of Some l \<Rightarrow> l | None \<Rightarrow> []))
            \<and> ''Profile'' \<notin> set (cat_songs c) \<and> ''Profile'' \<notin> set (listed_titles c)"
  proof
    assume "(p', CatalogJson c) \<in> set (files (snd (process_songbook e inp base initial_world)))"
    with sub have "(p', CatalogJson c) \<in> set (all_writes e d base)" by blast
    then have c: "c = build_catalog (songs_only_of d)"
      by (simp add: all_writes_catalog)
    show "c = build_catalog (filter (\<lambda>s. title s \<noteq> Some ''Profile'')
                                 (case doc_songs d of Some l \<Rightarrow> l | None \<Rightarrow> []))
            \<and> ''Profile'' \<notin> set (cat_songs c) \<and> ''Profile'' \<notin> set (listed_titles c)"
      unfolding c using profile_not_in_catalog [of "songs_only_of d"]
      by (simp add: songs_only_of_def)
  qed
  have c8: "filter (\<lambda>s. title s = Some ''Profile'')
             (case doc_songs d of Some l \<Rightarrow> l | None \<Rightarrow> []) = [r]
            \<and> fst (process_songbook e inp base initial_world) = None \<longrightarrow>
            final_file (snd (process_songbook e inp base initial_world))
              (path_join base ''artist_profile.json'') = Some (SongJson r)"
  proof
    assume that: "filter (\<lambda>s. title s = Some ''Profile'')
             (case doc_songs d of Some l \<Rightarrow> l | None \<Rightarrow> []) = [r]
            \<and> fst (process_songbook e inp base initial_world) = None"
    show "final_file (snd (process_songbook e inp base initial_world))
              (path_join base ''artist_profile.json'') = Some (SongJson r)"
      by (rule run_completed_profile [OF assms]) (simp_all add: that)
  qed
  show ?thesis
    by (intro conjI c1 c5 c6 c7 c8 profile_path_not_in_songs profile_path_not_in_albums
          profile_path_not_in_artists)
qed

theorem profile_record_kept_apart_witness:
  "read_input (quiet_env small_songbook) ''in.json'' = Loaded small_songbook
   \<and> (''out/artist_profile.json'', SongJson profile_record)
       \<in> set (files (snd (process_songbook (quiet_env small_songbook) ''in.json'' ''out'' initial_world)))
   \<and> title profile_record = Some ''Profile''
   \<and> ''out/artist_profile.json'' = path_join ''out'' ''artist_profile.json''
   \<and> (''out/albums/Z.json'',
         AlbumJson \<lparr>alb_album_title = ''Z'', alb_artist = ''X'', alb_song_count = 2,
                     alb_songs = [song_A, song_B]\<rparr>)
       \<in> set (files (snd (process_songbook (quiet_env small_songbook) ''in.json'' ''out'' initial_world)))
   \<and> title song_A \<noteq> Some ''Profile''
   \<and> (''out/artists/X.json'',
         ArtistJson \<lparr>art_artist_name = ''X'', art_song_count = 2, art_songs = [song_A, song_B]\<rparr>)
       \<in> set (files (snd (process_songbook (quiet_env small_songbook) ''in.json'' ''out'' initial_world)))
   \<and> title song_B \<noteq> Some ''Profile''
   \<and> (''out/catalog.json'',
         CatalogJson
           \<lparr>cat_artists = [(''X'', [''A'', ''B''])],
            cat_albums = [(''Z'', \<lparr>entry_artist = ''X'', entry_songs = [''A'', ''B'']\<rparr>)],
            cat_songs = [''A'', ''B'']\<rparr>)
       \<in> set (files (snd (process_songbook (quiet_env small_songbook) ''in.json'' ''out'' initial_world)))
   \<and> ''Profile'' \<notin> set [''A'', ''B'']
   \<and> filter (\<lambda>s. title s = Some ''Profile'') [song_B, song_A, profile_record] = [profile_record]
   \<and> fst (process_songbook (quiet_env small_songbook) ''in.json'' ''out'' initial_world) = None
   \<and> final_file (snd (process_songbook (quiet_env small_songbook) ''in.json'' ''out'' initial_world))
        (path_join ''out'' ''artist_profile.json'') = Some (SongJson profile_record)"
proof -
  let ?run = "process_songbook (quiet_env small_songbook) ''in.json'' ''out'' initial_world"
  let ?album = "\<lparr>alb_album_title = ''Z'', alb_artist = ''X'', alb_song_count = 2,
                  alb_songs = [song_A, song_B]\<rparr>"
  let ?artist = "\<lparr>art_artist_name = ''X'', art_song_count = 2, art_songs = [song_A, song_B]\<rparr>"
  let ?catalog = "\<lparr>cat_artists = [(''X'', [''A'', ''B''])],
            cat_albums = [(''Z'', \<lparr>entry_artist = ''X'', entry_songs = [''A'', ''B'']\<rparr>)],
            cat_songs = [''A'', ''B'']\<rparr>"
  have loaded: "read_input (quiet_env small_songbook) ''in.json'' = Loaded small_songbook"
    by simp
  have m1: "(''out/artist_profile.json'', SongJson profile_record) \<in> set (files (snd ?run))"
    and m2: "(''out/albums/Z.json'', AlbumJson ?album) \<in> set (files (snd ?run))"
    and m3: "(''out/artists/X.json'', ArtistJson ?artist) \<in> set (files (snd ?run))"
    and m4: "(''out/catalog.json'', CatalogJson ?catalog) \<in> set (files (snd ?run))"
    and completes: "fst ?run = None"
    by (simp_all add: small_run)
  have tp: "title profile_record = Some ''Profile''"
    by (simp add: profile_record_def)
  have once: "filter (\<lambda>s. title s = Some ''Profile'') [song_B, song_A, profile_record]
                = [profile_record]"
    by (simp add: song_A_def song_B_def profile_record_def)
  have sA: "song_A \<in> set (alb_songs ?album)" and sB: "song_B \<in> set (art_songs ?artist)"
    by simp_all
  note t = profile_record_kept_apart
    [OF loaded, where base = "''out''" and p = "''out/artist_profile.json''"
       and s = profile_record and q = "''out/albums/Z.json''" and a = ?album and x = song_A
       and q' = "''out/artists/X.json''" and b = ?artist and y = song_B
       and p' = "''out/catalog.json''" and c = ?catalog and r = profile_record and n = "''B''"]
  from t have "''out/artist_profile.json'' = path_join ''out'' ''artist_profile.json''"
    using m1 tp by (elim conjE) simp
  moreover from t have "title song_A \<noteq> Some ''Profile''"
    using m2 sA by (elim conjE) simp
  moreover from t have "title song_B \<noteq> Some ''Profile''"
    using m3 sB by (elim conjE) simp
  moreover from t have "''Profile'' \<notin> set [''A'', ''B'']"
    using m4 by (elim conjE) simp
  moreover from t have "final_file (snd ?run) (path_join ''out'' ''artist_profile.json'')
                          = Some (SongJson profile_record)"
    using once completes by (elim conjE) (simp add: doc_songs_small)
  ultimately show ?thesis
    using loaded m1 m2 m3 m4 tp once completes by (intro conjI)
qed

subsection \<open>Failures of the loader\<close>

lemma diagnostics_distinct:
  "msg_not_found inp \<noteq> msg_not_json inp"
  "msg_not_found inp \<noteq> msg_unexpected m"
  "msg_not_json inp \<noteq> msg_unexpected m"
  by (simp_all add: msg_not_found_def msg_not_json_def msg_unexpected_def)

text \<open>
  C7. When reading the input raises (file not found, invalid JSON, or any other
  exception), \<^verbatim>\<open>process_songbook\<close> returns at once, without an exception: it has
  printed the loading line and one diagnostic and has changed nothing else, so no
  directory is made and no file written. The three diagnostics are pairwise different.
\<close>

theorem load_failure_stops_run:
  "(read_input e inp = FileNotFoundError \<longrightarrow>
      process_songbook e inp base w =
        (None, w\<lparr>out := out w @ [''Loading songbook from: '' @ inp, msg_not_found inp]\<rparr>))
   \<and> (read_input e inp = JSONDecodeError \<longrightarrow>
      process_songbook e inp base w =
        (None, w\<lparr>out := out w @ [''Loading songbook from: '' @ inp, msg_not_json inp]\<rparr>))
   \<and> (read_input e inp = OtherException m \<longrightarrow>
      process_songbook e inp base w =
        (None, w\<lparr>out := out w @ [''Loading songbook from: '' @ inp, msg_unexpected m]\<rparr>))
   \<and> msg_not_found inp \<noteq> msg_not_json inp
   \<and> msg_not_found inp \<noteq> msg_unexpected m
   \<and> msg_not_json inp \<noteq> msg_unexpected m"
  by (simp add: process_songbook_def print_line_def diagnostics_distinct)

theorem load_failure_stops_run_witness:
  "read_input (env_failing_at []) ''missing.json'' = FileNotFoundError
   \<and> process_songbook (env_failing_at []) ''missing.json'' ''out'' initial_world =
        (None, \<lparr>dirs = [], files = [],
                out = [''Loading songbook from: missing.json'',
                       ''Error: The file '' @ [CHR 0x27] @ ''missing.json'' @ [CHR 0x27]
                         @ '' was not found.'']\<rparr>)
   \<and> read_input (env_failing_at []) ''broken.json'' = JSONDecodeError
   \<and> process_songbook (env_failing_at []) ''broken.json'' ''out'' initial_world =
        (None, \<lparr>dirs = [], files = [],
                out = [''Loading songbook from: broken.json'',
                       ''Error: The file '' @ [CHR 0x27] @ ''broken.json'' @ [CHR 0x27]
                         @ '' is not a valid JSON file.'']\<rparr>)
   \<and> read_input (env_failing_at []) ''locked.json'' = OtherException ''Permission denied''
   \<and> process_songbook (env_failing_at []) ''locked.json'' ''out'' initial_world =
        (None, \<lparr>dirs = [], files = [],
                out = [''Loading songbook from: locked.json'',
                       ''An unexpected error occurred while reading the file: Permission denied'']\<rparr>)"
proof -
  have r1: "read_input (env_failing_at []) ''missing.json'' = FileNotFoundError"
    and r2: "read_input (env_failing_at []) ''broken.json'' = JSONDecodeError"
    and r3: "read_input (env_failing_at []) ''locked.json'' = OtherException ''Permission denied''"
    by (simp_all add: env_failing_at_def)
  note t1 = load_failure_stops_run
    [where e = "env_failing_at []" and inp = "''missing.json''" and base = "''out''"
       and w = initial_world and m = "''Permission denied''"]
  note t2 = load_failure_stops_run
    [where e = "env_failing_at []" and inp = "''broken.json''" and base = "''out''"
       and w = initial_world and m = "''Permission denied''"]
  note t3 = load_failure_stops_run
    [where e = "env_failing_at []" and inp = "''locked.json''" and base = "''out''"
       and w = initial_world and m = "''Permission denied''"]
  from t1 r1 have "process_songbook (env_failing_at []) ''missing.json'' ''out'' initial_world =
        (None, \<lparr>dirs = [], files = [],
                out = [''Loading songbook from: missing.json'',
                       ''Error: The file '' @ [CHR 0x27] @ ''missing.json'' @ [CHR 0x27]
                         @ '' was not found.'']\<rparr>)"
    by (elim conjE) (simp add: initial_world_def msg_not_found_def)
  moreover from t2 r2 have "process_songbook (env_failing_at []) ''broken.json'' ''out'' initial_world =
        (None, \<lparr>dirs = [], files = [],
                out = [''Loading songbook from: broken.json'',
                       ''Error: The file '' @ [CHR 0x27] @ ''broken.json'' @ [CHR 0x27]
                         @ '' is not a valid JSON file.'']\<rparr>)"
    by (elim conjE) (simp add: initial_world_def msg_not_json_def)
  moreover from t3 r3 have "process_songbook (env_failing_at []) ''locked.json'' ''out'' initial_world =
        (None, \<lparr>dirs = [], files = [],
                out = [''Loading songbook from: locked.json'',
                       ''An unexpected error occurred while reading the file: Permission denied'']\<rparr>)"
    by (elim conjE) (simp add: initial_world_def msg_unexpected_def)
  ultimately show ?thesis
    using r1 r2 r3 by (intro conjI)
qed

subsection \<open>Which operations raise\<close>

lemma fst_and_then:
  "fst (and_then r f) = (case fst r of None \<Rightarrow> fst (f (snd r)) | Some x \<Rightarrow> Some x)"
  by (cases r) (simp add: and_then_def split: option.splits)

lemma fst_write_json:
  "fst (write_json e p x w) =
     (case write_error e p of Some m \<Rightarrow> Some (OSError m) | None \<Rightarrow> None)"
  by (simp add: write_json_def split: option.splits)

lemma fst_makedirs:
  "fst (makedirs e p w) =
     (case mkdir_error e p of Some m \<Rightarrow> Some (OSError m) | None \<Rightarrow> None)"
  by (simp add: makedirs_def split: option.splits)

lemma fst_create_directories:
  "fst (create_directories e base w) =
     (case mkdir_error e (path_join base ''songs'') of
        Some m \<Rightarrow> Some (OSError m)
      | None \<Rightarrow>
          (case mkdir_error e (path_join base ''albums'') of
             Some m \<Rightarrow> Some (OSError m)
           | None \<Rightarrow>
               (case mkdir_error e (path_join base ''artists'') of
                  Some m \<Rightarrow> Some (OSError m) | None \<Rightarrow> None)))"
  by (simp add: create_directories_def fst_and_then fst_makedirs split: option.splits)

lemma fst_create_catalog_file:
  "fst (create_catalog_file e songs base w) =
     (case write_error e (path_join base ''catalog.json'') of
        Some m \<Rightarrow> Some (OSError m) | None \<Rightarrow> None)"
  by (simp add: create_catalog_file_def fst_and_then fst_write_json split: option.splits)

lemma fst_create_profile_and_metadata_files:
  "fst (create_profile_and_metadata_files e d base w) =
     (case (case doc_metadata d of
              Some md \<Rightarrow> write_error e (path_join base ''metadata.json'')
            | None \<Rightarrow> None) of
        Some m \<Rightarrow> Some (OSError m)
      | None \<Rightarrow>
          (case find (\<lambda>item. title item = Some ''Profile'')
                  (case doc_songs d of Some l \<Rightarrow> l | None \<Rightarrow> []) of
             Some r \<Rightarrow>
               (case write_error e (path_join base ''artist_profile.json'') of
                  Some m \<Rightarrow> Some (OSError m) | None \<Rightarrow> None)
           | None \<Rightarrow> None))"
  by (simp add: create_profile_and_metadata_files_def fst_and_then fst_write_json
           split: option.splits)

lemma fst_process_songbook:
  assumes "read_input e inp = Loaded d"
  shows "fst (process_songbook e inp base w) =
     (case fst (create_directories e base initial_world) of
        Some x \<Rightarrow> Some x
      | None \<Rightarrow>
          (case fst (create_profile_and_metadata_files e d base initial_world) of
             Some x \<Rightarrow> Some x
           | None \<Rightarrow>
               (case write_error e (path_join base ''catalog.json'') of
                  Some m \<Rightarrow> Some (OSError m) | None \<Rightarrow> None)))"
  unfolding process_songbook_def Let_def assms load_outcome.case
  by (simp add: fst_and_then fst_create_directories fst_create_profile_and_metadata_files
        fst_create_catalog_file split: option.splits)

subsection \<open>Failed writes of items\<close>

lemma song_step_out_initial:
  "out (song_step e d s initial_world) =
     (case title s of
        None \<Rightarrow> []
      | Some t \<Rightarrow>
          if t \<noteq> ''Profile'' then
            (case write_error e (path_join d (sanitize_filename t @ ''.json'')) of
               Some m \<Rightarrow> [''Could not create file for song: '' @ t @ ''. Error: '' @ m]
             | None \<Rightarrow> [])
          else [])"
  by (rule song_step_cases [where s=s and e=e and d=d])
     (auto simp: song_step_None song_step_Profile song_step_ok song_step_fails)


















lemma small_paths:
  "path_join (path_join ''out'' ''songs'') (sanitize_filename ''B'' @ ''.json'') = ''out/songs/B.json''"
  "path_join (path_join ''out'' ''songs'') (sanitize_filename ''A'' @ ''.json'') = ''out/songs/A.json''"
  "path_join (path_join ''out'' ''albums'') (sanitize_filename ''Z'' @ ''.json'') = ''out/albums/Z.json''"
  "path_join (path_join ''out'' ''artists'') (sanitize_filename ''X'' @ ''.json'') = ''out/artists/X.json''"
  "path_join ''out'' ''catalog.json'' = ''out/catalog.json''"
  "path_join ''out'' ''metadata.json'' = ''out/metadata.json''"
  "path_join ''out'' ''artist_profile.json'' = ''out/artist_profile.json''"
  by (simp_all add: path_join_def sanitize_filename_def invalid_chars_def)


lemma small_find_profile:
  "find (\<lambda>item. title item = Some ''Profile'') [song_B, song_A, profile_record] = Some profile_record"
  by (simp add: song_B_def song_A_def profile_record_def)

lemma env_failing_at_sel:
  "read_input (env_failing_at ps) ''in.json'' = Loaded small_songbook"
  "write_error (env_failing_at ps) p = (if p \<in> set ps then Some ''disk full'' else None)"
  "mkdir_error (env_failing_at ps) p = None"
  by (simp_all add: env_failing_at_def)


subsection \<open>Failed writes of the metadata and the profile\<close>

text \<open>
  C9. \<^verbatim>\<open>create_profile_and_metadata_files\<close> has no handler: when the write of
  \<^verbatim>\<open>metadata.json\<close> fails it raises at once, before the profile is looked for; when
  the write of \<^verbatim>\<open>artist_profile.json\<close> fails it raises too. \<^verbatim>\<open>process_songbook\<close>
  has no handler around the stage either, so whatever the stage raises, the run raises.
\<close>

theorem profile_and_metadata_failures_raised:
  "(doc_metadata d = Some md \<and> write_error e (path_join base ''metadata.json'') = Some m \<longrightarrow>
      create_profile_and_metadata_files e d base w =
        (Some (OSError m), print_line ''Extracting profile and metadata...'' w))
   \<and> ((doc_metadata d = None \<or> write_error e (path_join base ''metadata.json'') = None)
        \<and> find (\<lambda>item. title item = Some ''Profile'')
              (case doc_songs d of Some l \<Rightarrow> l | None \<Rightarrow> []) = Some r
        \<and> write_error e (path_join base ''artist_profile.json'') = Some m \<longrightarrow>
      fst (create_profile_and_metadata_files e d base w) = Some (OSError m))
   \<and> (read_input e inp = Loaded d
        \<and> fst (create_directories e base initial_world) = None
        \<and> fst (create_profile_and_metadata_files e d base initial_world) = Some x \<longrightarrow>
      fst (process_songbook e inp base w) = Some x)"
proof (intro conjI impI)
  assume "doc_metadata d = Some md \<and> write_error e (path_join base ''metadata.json'') = Some m"
  then show "create_profile_and_metadata_files e d base w =
        (Some (OSError m), print_line ''Extracting profile and metadata...'' w)"
    by (simp add: create_profile_and_metadata_files_def write_json_fails)
next
  assume "(doc_metadata d = None \<or> write_error e (path_join base ''metadata.json'') = None)
        \<and> find (\<lambda>item. title item = Some ''Profile'')
              (case doc_songs d of Some l \<Rightarrow> l | None \<Rightarrow> []) = Some r
        \<and> write_error e (path_join base ''artist_profile.json'') = Some m"
  then show "fst (create_profile_and_metadata_files e d base w) = Some (OSError m)"
    by (auto simp: fst_create_profile_and_metadata_files split: option.splits)
next
  assume "read_input e inp = Loaded d
        \<and> fst (create_directories e base initial_world) = None
        \<and> fst (create_profile_and_metadata_files e d base initial_world) = Some x"
  then have l: "read_input e inp = Loaded d"
    and a: "fst (create_directories e base initial_world) = None"
    and b: "fst (create_profile_and_metadata_files e d base initial_world) = Some x"
    by simp_all
  show "fst (process_songbook e inp base w) = Some x"
    unfolding fst_process_songbook [OF l, of base w] a b option.case ..
qed

theorem profile_and_metadata_failures_raised_witness:
  "doc_metadata small_songbook = Some (JObj [(''v'', JNum 1)])
   \<and> write_error (env_failing_at [''out/metadata.json'']) (path_join ''out'' ''metadata.json'')
        = Some ''disk full''
   \<and> create_profile_and_metadata_files (env_failing_at [''out/metadata.json'']) small_songbook
        ''out'' initial_world
       = (Some (OSError ''disk full''),
          print_line ''Extracting profile and metadata...'' initial_world)
   \<and> write_error (env_failing_at [''out/artist_profile.json'']) (path_join ''out'' ''metadata.json'')
        = None
   \<and> find (\<lambda>item. title item = Some ''Profile'') [song_B, song_A, profile_record]
        = Some profile_record
   \<and> write_error (env_failing_at [''out/artist_profile.json''])
        (path_join ''out'' ''artist_profile.json'') = Some ''disk full''
   \<and> fst (create_profile_and_metadata_files (env_failing_at [''out/artist_profile.json''])
             small_songbook ''out'' initial_world) = Some (OSError ''disk full'')
   \<and> read_input (env_failing_at [''out/artist_profile.json'']) ''in.json'' = Loaded small_songbook
   \<and> fst (create_directories (env_failing_at [''out/artist_profile.json'']) ''out'' initial_world)
        = None
   \<and> fst (process_songbook (env_failing_at [''out/artist_profile.json'']) ''in.json'' ''out''
             initial_world) = Some (OSError ''disk full'')"
proof -
  let ?M = "env_failing_at [''out/metadata.json'']"
  let ?P = "env_failing_at [''out/artist_profile.json'']"
  have md: "doc_metadata small_songbook = Some (JObj [(''v'', JNum 1)])"
    by (simp add: small_songbook_def)
  have wM: "write_error ?M (path_join ''out'' ''metadata.json'') = Some ''disk full''"
    and wPm: "write_error ?P (path_join ''out'' ''metadata.json'') = None"
    and wPp: "write_error ?P (path_join ''out'' ''artist_profile.json'') = Some ''disk full''"
    by (simp_all add: env_failing_at_sel small_paths)
  have loaded: "read_input ?P ''in.json'' = Loaded small_songbook"
    by (rule env_failing_at_sel)
  have dirs_ok: "fst (create_directories ?P ''out'' initial_world) = None"
    by (simp add: fst_create_directories env_failing_at_sel)
  note tM = profile_and_metadata_failures_raised
    [where e = ?M and d = small_songbook and base = "''out''" and w = initial_world
       and md = "JObj [(''v'', JNum 1)]" and m = "''disk full''" and r = profile_record
       and inp = "''in.json''" and x = "OSError ''disk full''"]
  note tP = profile_and_metadata_failures_raised
    [where e = ?P and d = small_songbook and base = "''out''" and w = initial_world
       and md = "JObj [(''v'', JNum 1)]" and m = "''disk full''" and r = profile_record
       and inp = "''in.json''" and x = "OSError ''disk full''"]
  from tM have c1: "create_profile_and_metadata_files ?M small_songbook ''out'' initial_world
       = (Some (OSError ''disk full''),
          print_line ''Extracting profile and metadata...'' initial_world)"
    using md wM by (elim conjE) simp
  from tP have c2: "fst (create_profile_and_metadata_files ?P small_songbook ''out'' initial_world)
       = Some (OSError ''disk full'')"
    using wPm wPp small_find_profile by (elim conjE) (simp add: doc_songs_small)
  from tP have c3: "fst (process_songbook ?P ''in.json'' ''out'' initial_world)
       = Some (OSError ''disk full'')"
    using loaded dirs_ok c2 by (elim conjE) simp
  show ?thesis
    using md wM c1 wPm small_find_profile wPp c2 loaded dirs_ok c3 by (intro conjI)
qed

end
